theory Spec2Isabelle
  imports Complex_Main "HOL-Library.Char_ord" "HOL-Library.Multiset" "HOL-Library.AList"
begin

section \<open>Numbers and strings of the Python source\<close>

text \<open>
  The bot computes with Python floats. Two models of them are used. Where a property is
  about the flow of the conversation, or about which stored values a figure is computed
  from, the floats are idealised as exact rationals (the type \<open>num\<close>): every arithmetic
  operation is the exact one and \<open>round(x, 2)\<close> is rounding of the exact value to two
  decimals, ties to the even neighbour. Overflow and the representation error of a float
  are outside this idealisation, so its figures can differ from the floats' in the last
  place (lemma \<open>rational_idealisation_differs\<close>). The calculator itself is modelled on the
  doubles as well, in the section after the next.
\<close>

type_synonym num = rat

definition round_half_even :: "rat \<Rightarrow> int" where
  "round_half_even x =
     (let f = \<lfloor>x\<rfloor>; r = x - of_int f
      in if r < 1 / 2 then f
         else if 1 / 2 < r then f + 1
         else if even f then f else f + 1)"

definition round2 :: "num \<Rightarrow> num" where
  "round2 x = of_int (round_half_even (x * 100)) / 100"

text \<open>\<open>str.lower()\<close> on the ASCII letters; every other character is kept.\<close>

definition lower_char :: "char \<Rightarrow> char" where
  "lower_char c =
     (if CHR ''A'' \<le> c \<and> c \<le> CHR ''Z'' then char_of (of_char c + (32::nat)) else c)"

definition lower :: "string \<Rightarrow> string" where
  "lower s = map lower_char s"

section \<open>The PnL calculator in exact rationals\<close>

definition calculate_pnl_value :: "num \<Rightarrow> num \<Rightarrow> num \<Rightarrow> string \<Rightarrow> num" where
  "calculate_pnl_value entry target lots trade_type =
     (let diff = target - entry;
          val = diff * lots * 100;
          val = (if lower trade_type = ''short'' then - val else val)
      in round2 val)"

definition calculate_balance_percent :: "num \<Rightarrow> num \<Rightarrow> num" where
  "calculate_balance_percent balance pnl =
     (if balance = 0 then 0 else (pnl / balance) * 100)"

section \<open>The PnL calculator on IEEE doubles\<close>

text \<open>
  A finite double is the rational it denotes (a signed zero is 0, as \<open>0.0 == -0.0\<close>); the
  other values are the two infinities and NaN. The result of an operation on finite doubles
  is its exact result rounded to the nearest double, ties to the even significand, with 53
  bits of precision, the least exponent \<open>-1022\<close> (below it the spacing stays \<open>2^-1074\<close>),
  and infinity from \<open>2^1024\<close> on; Python raises nothing on overflow of \<open>-\<close> and \<open>*\<close>.
\<close>

definition pow2 :: "int \<Rightarrow> rat" where
  "pow2 n = (if 0 \<le> n then 2 ^ nat n else 1 / 2 ^ nat (- n))"

text \<open>The number of binary digits of a positive integer.\<close>

function bit_length :: "int \<Rightarrow> int" where
  "bit_length n = (if n \<le> 0 then 0 else bit_length (n div 2) + 1)"
  by pat_completeness auto
termination
  by (relation "measure nat") auto

declare bit_length.simps [simp del]

text \<open>The exponent of the binade of a rational \<open>x \<noteq> 0\<close>: the greatest \<open>n\<close> with
  \<open>2^n \<le> \<bar>x\<bar>\<close> (lemma \<open>ilog2_bounds\<close>).\<close>

definition ilog2 :: "rat \<Rightarrow> int" where
  "ilog2 x =
     (let (p, q) = quotient_of \<bar>x\<bar>;
          a = bit_length p - bit_length q
      in if pow2 a \<le> \<bar>x\<bar> then a else a - 1)"

datatype double = Finite rat | Infinite bool | NaN

text \<open>Rounding of an exact result to a double; \<open>Infinite True\<close> is \<open>+inf\<close>.\<close>

definition to_double :: "rat \<Rightarrow> double" where
  "to_double x =
     (if x = 0 then Finite 0
      else (let u = pow2 (max (ilog2 x) (- 1022) - 52);
                r = of_int (round_half_even (x / u)) * u
            in if pow2 1024 \<le> \<bar>r\<bar> then Infinite (0 < x) else Finite r))"






section \<open>Errors\<close>

text \<open>The Python exceptions that the modelled code can raise; \<open>OperationalError\<close> is the
  failure of a call to the database.\<close>

datatype error = ValueError | KeyError | IndexError | TypeError | NameError | OperationalError

section \<open>Week bucketing\<close>

text \<open>
  A calendar date is its proleptic Gregorian ordinal (\<open>date.toordinal()\<close>: day 1 is Monday
  0001-01-01), so \<open>date.weekday()\<close> is \<open>(ordinal + 6) mod 7\<close> with Monday = 0 and
  Sunday = 6, and subtracting a \<open>timedelta\<close> of \<open>n\<close> days subtracts \<open>n\<close>. The rows hold
  the day as the text written by \<open>strftime("%Y-%m-%d")\<close>; reading it back with \<open>strptime\<close>
  and the bounds of Python's date type (years 1 to 9999) are outside the model.
\<close>

type_synonym date = int

definition weekday :: "date \<Rightarrow> int" where
  "weekday d = (d + 6) mod 7"

definition week_start :: "date \<Rightarrow> date" where
  "week_start dobj = dobj - (weekday dobj + 1) mod 7"

text \<open>\<open>weeks[k].append(v)\<close> on a \<open>defaultdict(list)\<close>, which keeps its keys in the order of
  their first insertion.\<close>

fun dict_append :: "'k \<Rightarrow> 'v \<Rightarrow> ('k \<times> 'v list) list \<Rightarrow> ('k \<times> 'v list) list" where
  "dict_append k v [] = [(k, [v])]"
| "dict_append k v ((k', vs) # rest) =
     (if k = k' then (k', vs @ [v]) # rest else (k', vs) # dict_append k v rest)"

text \<open>The body of the loop over the fetched rows, and the loop.\<close>

fun add_week ::
  "int \<times> date \<Rightarrow> (date \<times> (int \<times> date) list) list \<Rightarrow> (date \<times> (int \<times> date) list) list" where
  "add_week (bid, dobj) weeks = dict_append (week_start dobj) (bid, dobj) weeks"

definition weeks_of :: "(int \<times> date) list \<Rightarrow> (date \<times> (int \<times> date) list) list" where
  "weeks_of raw = fold add_week raw []"

text \<open>\<open>sorted(weeks.items())\<close>: the keys of a dict are distinct, so the order of the pairs
  is the order of their keys.\<close>

definition sorted_weeks :: "(int \<times> date) list \<Rightarrow> (date \<times> (int \<times> date) list) list" where
  "sorted_weeks raw = sort_key fst (weeks_of raw)"

text \<open>\<open>min\<close> and \<open>max\<close> of a generator raise \<open>ValueError\<close> when it is empty.\<close>

fun py_min :: "int list \<Rightarrow> error + int" where
  "py_min [] = Inl ValueError"
| "py_min (x # xs) = Inr (fold min xs x)"

fun py_max :: "int list \<Rightarrow> error + int" where
  "py_max [] = Inl ValueError"
| "py_max (x # xs) = Inr (fold max xs x)"

text \<open>One button of the week list: the ids of the days of the week and the label
  \<open>f"{mn}/{mx}"\<close>, kept as the pair of its two dates.\<close>

type_synonym week_item = "int list \<times> date \<times> date"

definition week_item :: "(int \<times> date) list \<Rightarrow> error + week_item" where
  "week_item v =
     (let ids = map fst v in
      case py_min (map snd v) of Inl e \<Rightarrow> Inl e
      | Inr mn \<Rightarrow> (case py_max (map snd v) of Inl e \<Rightarrow> Inl e
         | Inr mx \<Rightarrow> Inr (ids, mn, mx)))"

fun week_items :: "(date \<times> (int \<times> date) list) list \<Rightarrow> error + week_item list" where
  "week_items [] = Inr []"
| "week_items ((s, v) # rest) =
     (case week_item v of Inl e \<Rightarrow> Inl e
      | Inr it \<Rightarrow> (case week_items rest of Inl e \<Rightarrow> Inl e | Inr its \<Rightarrow> Inr (it # its)))"

definition weekly_items :: "(int \<times> date) list \<Rightarrow> error + week_item list" where
  "weekly_items raw = week_items (sorted_weeks raw)"

section \<open>The database\<close>

text \<open>
  The tables \<open>calcbalances\<close> (one row per trade) and \<open>balances\<close> (one row per user and day)
  with their \<open>BIGSERIAL\<close> sequences. A table is the list of its rows in insertion order, and a
  query without \<open>ORDER BY\<close> returns the rows in that order. The column \<open>forIds\<close> is a
  \<open>TEXT[]\<close> holding \<open>str(id)\<close> of the linked trades, read back with \<open>int(x)\<close>; the model keeps
  the ids themselves. \<open>forIds\<close> is \<open>NULL\<close> (\<open>None\<close>) until the first trade is linked. The
  timestamp of a trade is kept as its date. The table \<open>calcmessageid\<close>, which only remembers
  the last menu message to delete it from the chat, is not modelled.
\<close>

record trade =
  t_id :: int
  t_day :: date
  t_currency :: string
  t_lots :: num
  t_losses :: "num list"
  t_gains :: "num list"
  t_entrytarget :: "num list"
  t_takeprofittarget :: "num list"
  t_stoploss :: num
  t_type :: string
  t_totalbalance :: "num list"

record balance_row =
  b_id :: int
  forIds :: "int list option"
  balance :: num
  b_day :: date
  userid :: int

record db =
  calcbalances :: "trade list"
  balances :: "balance_row list"
  calc_seq :: int
  bal_seq :: int

text \<open>\<open>SELECT balance, id FROM balances WHERE "day" = %s AND userid = %s\<close> with
  \<open>fetchone()\<close>.\<close>

definition select_today :: "db \<Rightarrow> date \<Rightarrow> int \<Rightarrow> balance_row option" where
  "select_today d day uid = find (\<lambda>r. b_day r = day \<and> userid r = uid) (balances d)"

text \<open>\<open>INSERT INTO balances(balance, "day", userid) VALUES(%s, %s, %s)\<close>.\<close>

definition insert_balance :: "db \<Rightarrow> num \<Rightarrow> date \<Rightarrow> int \<Rightarrow> db" where
  "insert_balance d bal day uid =
     d\<lparr>balances := balances d @
          [\<lparr>b_id = bal_seq d, forIds = None, balance = bal, b_day = day, userid = uid\<rparr>],
       bal_seq := bal_seq d + 1\<rparr>"

text \<open>\<open>INSERT INTO calcbalances(...) VALUES (...) RETURNING id\<close>: the row is completed with
  the next id, and with the id and the day of the row by column defaults.\<close>

definition insert_calc :: "db \<Rightarrow> date \<Rightarrow> trade \<Rightarrow> int \<times> db" where
  "insert_calc d day row =
     (calc_seq d,
      d\<lparr>calcbalances := calcbalances d @ [row\<lparr>t_id := calc_seq d, t_day := day\<rparr>],
        calc_seq := calc_seq d + 1\<rparr>)"

definition array_append :: "int list option \<Rightarrow> int \<Rightarrow> int list option" where
  "array_append a x = (case a of None \<Rightarrow> Some [x] | Some xs \<Rightarrow> Some (xs @ [x]))"

definition array_remove :: "int list option \<Rightarrow> int \<Rightarrow> int list option" where
  "array_remove a x = (case a of None \<Rightarrow> None | Some xs \<Rightarrow> Some (removeAll x xs))"

text \<open>\<open>%s = ANY(forids)\<close> in a \<open>WHERE\<close> clause: not satisfied by \<open>NULL\<close>.\<close>

definition any_forids :: "int \<Rightarrow> int list option \<Rightarrow> bool" where
  "any_forids x a = (case a of None \<Rightarrow> False | Some xs \<Rightarrow> x \<in> set xs)"

text \<open>\<open>UPDATE balances SET balance = %s, forIds = array_append(forIds, %s) WHERE id = %s\<close>.\<close>

definition update_balance_link :: "db \<Rightarrow> num \<Rightarrow> int \<Rightarrow> int \<Rightarrow> db" where
  "update_balance_link d new_balance new_id bal_id =
     d\<lparr>balances := map (\<lambda>r. if b_id r = bal_id
                              then r\<lparr>balance := new_balance, forIds := array_append (forIds r) new_id\<rparr>
                              else r) (balances d)\<rparr>"

text \<open>\<open>UPDATE balances SET balance = %s WHERE userid = %s AND "day" = %s\<close>.\<close>

definition update_balance_day :: "db \<Rightarrow> num \<Rightarrow> int \<Rightarrow> date \<Rightarrow> db" where
  "update_balance_day d val uid day =
     d\<lparr>balances := map (\<lambda>r. if userid r = uid \<and> b_day r = day then r\<lparr>balance := val\<rparr> else r)
                       (balances d)\<rparr>"

text \<open>\<open>DELETE FROM calcbalances WHERE id = %s\<close> and
  \<open>UPDATE balances SET forids = array_remove(forids, %s) WHERE %s = ANY(forids)\<close>.\<close>

definition delete_calc :: "db \<Rightarrow> int \<Rightarrow> db" where
  "delete_calc d tid = d\<lparr>calcbalances := filter (\<lambda>t. t_id t \<noteq> tid) (calcbalances d)\<rparr>"

definition unlink_calc :: "db \<Rightarrow> int \<Rightarrow> db" where
  "unlink_calc d tid =
     d\<lparr>balances := map (\<lambda>r. if any_forids tid (forIds r)
                              then r\<lparr>forIds := array_remove (forIds r) tid\<rparr> else r)
                       (balances d)\<rparr>"

text \<open>\<open>SELECT * FROM calcbalances WHERE id = ANY(%s::bigint[])\<close>.\<close>

definition select_calcs :: "db \<Rightarrow> int list \<Rightarrow> trade list" where
  "select_calcs d calc_ids = filter (\<lambda>t. t_id t \<in> set calc_ids) (calcbalances d)"

section \<open>Sessions\<close>

text \<open>
  \<open>user_states\<close> is a \<open>defaultdict(dict)\<close> from chat ids to a session dict with the keys
  \<open>"step"\<close>, \<open>"data"\<close>, \<open>"day"\<close> and \<open>"weekly_map"\<close>, each of which may be absent. The
  steps are the strings that the code stores under \<open>"step"\<close>.
\<close>

datatype step =
  Step_currency | Step_balance | Step_lots | Step_type | Step_entry1 | Step_entry2_q
  | Step_entry2 | Step_tp1 | Step_tp2_q | Step_tp2 | Step_sl | Step_edit_val

record trade_data =
  d_currency :: "string option"
  d_balance :: "num option"
  d_lots :: "num option"
  d_type :: "string option"
  entry_targets :: "num list option"
  tp_targets :: "num list option"
  d_sl :: "num option"

definition empty_data :: trade_data where
  "empty_data = \<lparr>d_currency = None, d_balance = None, d_lots = None, d_type = None,
                  entry_targets = None, tp_targets = None, d_sl = None\<rparr>"

record session =
  s_step :: "step option"
  s_data :: "trade_data option"
  s_day :: "date option"
  weekly_map :: "(string \<times> int list) list option"

definition empty_session :: session where
  "empty_session = \<lparr>s_step = None, s_data = None, s_day = None, weekly_map = None\<rparr>"

type_synonym user_states = "int \<rightharpoonup> session"

text \<open>\<open>user_states[chat_id]\<close>: reading a missing key of the \<open>defaultdict\<close> stores and
  returns an empty dict.\<close>

definition get_state :: "user_states \<Rightarrow> int \<Rightarrow> session \<times> user_states" where
  "get_state us chat_id =
     (case us chat_id of None \<Rightarrow> (empty_session, us(chat_id \<mapsto> empty_session))
      | Some sess \<Rightarrow> (sess, us))"

section \<open>What a handler is given and what it does\<close>

text \<open>
  A handler runs with: \<open>float_of\<close>, the built-in \<open>float(text)\<close> (\<open>None\<close> where it raises
  \<open>ValueError\<close>); \<open>today\<close>, the day of \<open>datetime.now()\<close>; \<open>year_month\<close>, the year and
  month of a day in the calendar; \<open>sudos\<close>, the allow-list; \<open>uuid4\<close>, the random tokens
  drawn by the call, in order; and \<open>fail_at\<close>, the number of the database call (counted
  from 0 within the handler: the connection, then each statement and the commit) at which
  the database fails, if it fails. The failing call has no effect, and the calls after it
  are not reached unless the handler goes on. Only \<open>message_handler\<close> consults \<open>fail_at\<close>:
  the callback handlers, which have no \<open>except\<close> of their own, are modelled for a database
  that answers. Sending a message is taken to succeed.

  It returns the sessions, the committed database, the messages sent (their text, or the
  figures of a report; keyboards are left out), and the exception that escaped it, if one did.
\<close>

record env =
  float_of :: "string \<Rightarrow> num option"
  today :: date
  year_month :: "date \<Rightarrow> int \<times> int"
  sudos :: "int list"
  uuid4 :: "nat \<Rightarrow> string"
  fail_at :: "nat option"

record daily_summary =
  ds_day :: date
  ds_count :: nat
  ds_rows :: "(int \<times> num list) list"
  ds_total_profit :: num
  ds_total_loss :: num
  ds_gains_pct :: num
  ds_losses_pct :: num
  ds_final_balance :: num

datatype reply =
  Text string
  | Saved num num
  | Week_menu "(date \<times> date \<times> string) list"
  | Daily_report daily_summary
  | Weekly_report nat num num
  | Monthly_report int num num

record outcome =
  states :: user_states
  database :: db
  replies :: "reply list"
  raised :: "error option"

text \<open>\<open>start\<close>, where its database connection (for the bookkeeping of the menu message)
  succeeds: the check against the allow-list, the session created if missing, the menu.\<close>

definition start :: "env \<Rightarrow> user_states \<Rightarrow> int \<Rightarrow> user_states \<times> reply list" where
  "start e us chat_id =
     (if chat_id \<notin> set (sudos e) then (us, [Text ''You do not have access to this bot.''])
      else ((case us chat_id of None \<Rightarrow> us(chat_id \<mapsto> empty_session) | Some _ \<Rightarrow> us),
            [Text ''Please select one of the options below:'']))"

definition close_handler :: "user_states \<Rightarrow> db \<Rightarrow> int \<Rightarrow> outcome" where
  "close_handler us d chat_id =
     \<lparr>states = us(chat_id := None), database = d,
      replies = [Text ''Main menu opened /start''], raised = None\<rparr>"

definition new_report :: "user_states \<Rightarrow> db \<Rightarrow> int \<Rightarrow> outcome" where
  "new_report us d chat_id =
     \<lparr>states = us(chat_id \<mapsto> \<lparr>s_step = Some Step_currency, s_data = Some empty_data,
                               s_day = None, weekly_map = None\<rparr>),
      database = d, replies = [Text ''Enter the currency name:''], raised = None\<rparr>"

definition edit_balance_chosen :: "env \<Rightarrow> user_states \<Rightarrow> db \<Rightarrow> int \<Rightarrow> int \<Rightarrow> outcome" where
  "edit_balance_chosen e us d chat_id bid =
     (case find (\<lambda>r. b_id r = bid) (balances d) of
        Some row \<Rightarrow>
          \<lparr>states = us(chat_id \<mapsto> \<lparr>s_step = Some Step_edit_val, s_data = None,
                                   s_day = Some (b_day row), weekly_map = None\<rparr>),
           database = d, replies = [Text ''Enter new amount for date''], raised = None\<rparr>
      | None \<Rightarrow>
          (let (us', msgs) = start e us chat_id
           in \<lparr>states = us', database = d, replies = Text ''Not found.'' # msgs, raised = None\<rparr>))"

section \<open>The trade entry flow\<close>

text \<open>\<open>message.text.strip().replace("%", "")\<close>, with the ASCII white space of
  \<open>str.isspace\<close>.\<close>

definition is_space :: "char \<Rightarrow> bool" where
  "is_space c = (let n = (of_char c :: nat) in (9 \<le> n \<and> n \<le> 13) \<or> (28 \<le> n \<and> n \<le> 32))"

definition strip :: "string \<Rightarrow> string" where
  "strip s = rev (dropWhile is_space (rev (dropWhile is_space s)))"

definition clean_text :: "string \<Rightarrow> string" where
  "clean_text t = filter (\<lambda>c. c \<noteq> CHR ''%'') (strip t)"

text \<open>The affirmative answers; the third is the UTF-8 encoding of the Persian word.\<close>

definition yes_words :: "string list" where
  "yes_words = [''yes'', ''y'', map char_of [216, 168, 217, 132, 217, 135 :: nat]]"

fun prompt_map :: "step \<Rightarrow> string option" where
  "prompt_map Step_lots = Some ''Lots amount:''"
| "prompt_map Step_type = Some ''Position Type (Long/Short):''"
| "prompt_map Step_entry1 = Some ''First Entry Target:''"
| "prompt_map Step_entry2_q = Some ''Do you have a second entry? (Yes/No)''"
| "prompt_map Step_entry2 = Some ''Second Entry Target:''"
| "prompt_map Step_tp1 = Some ''First Take Profit Target:''"
| "prompt_map Step_tp2_q = Some ''Do you have a second target? (Yes/No)''"
| "prompt_map Step_tp2 = Some ''Second Take Profit Target:''"
| "prompt_map Step_sl = Some ''Stop Loss:''"
| "prompt_map _ = None"

text \<open>The \<open>data\<close> dict is mutated in place: it is the dict of the session when the session
  has the key \<open>"data"\<close>, and a fresh one that is dropped otherwise.\<close>

definition store_data :: "session \<Rightarrow> trade_data \<Rightarrow> session" where
  "store_data sess data = (case s_data sess of None \<Rightarrow> sess | Some _ \<Rightarrow> sess\<lparr>s_data := Some data\<rparr>)"

text \<open>A handler that makes \<open>n\<close> database calls and lets none of them pass its own
  \<open>try\<close> fails when the failing call is one of them.\<close>

definition fails_within :: "env \<Rightarrow> nat \<Rightarrow> bool" where
  "fails_within e n = (case fail_at e of None \<Rightarrow> False | Some k \<Rightarrow> k < n)"

text \<open>One branch of the \<open>if\<close>/\<open>elif\<close> chain over the steps before \<open>sl\<close>: it either sets
  \<open>next_step\<close> and falls through to the end of the handler, or returns (or raises) early.
  Both leave the data dict and the database as the branch made them.\<close>

datatype branch =
  Advance trade_data step db
  | Return trade_data db "reply list" "error option"

text \<open>Closing a connection without a commit discards the rows written through it, but not
  the values drawn from the sequences: \<open>rollback d work\<close> is the database \<open>d\<close> of before the
  transaction with the sequences of the discarded state \<open>work\<close>.\<close>

definition rollback :: "db \<Rightarrow> db \<Rightarrow> db" where
  "rollback d work = d\<lparr>calc_seq := calc_seq work, bal_seq := bal_seq work\<rparr>"

definition flow_branch :: "env \<Rightarrow> db \<Rightarrow> int \<Rightarrow> step \<Rightarrow> trade_data \<Rightarrow> string \<Rightarrow> branch" where
  "flow_branch e d chat_id curr_state data text =
     (case curr_state of
        Step_currency \<Rightarrow>
          (let data = data\<lparr>d_currency := Some text\<rparr> in
           if fails_within e 2 then Return data d [] (Some OperationalError)
           else Advance data
                  (if select_today d (today e) chat_id \<noteq> None then Step_lots else Step_balance) d)
      | Step_balance \<Rightarrow>
          (case float_of e text of
             None \<Rightarrow> Return data d [Text ''Enter a number.''] None
           | Some bal \<Rightarrow>
               (let data = data\<lparr>d_balance := Some bal\<rparr>;
                    d1 = insert_balance d bal (today e) chat_id in
                if fails_within e 2 then Return data d [Text ''Enter a number.''] None
                else if fails_within e 3 then Return data (rollback d d1) [Text ''Enter a number.''] None
                else Advance data Step_lots d1))
      | Step_lots \<Rightarrow>
          (case float_of e text of
             None \<Rightarrow> Return data d [Text ''Enter a number.''] None
           | Some v \<Rightarrow> Advance (data\<lparr>d_lots := Some v\<rparr>) Step_type d)
      | Step_type \<Rightarrow>
          (if lower text \<in> set [''long'', ''short'']
           then Advance (data\<lparr>d_type := Some (lower text)\<rparr>) Step_entry1 d
           else Return data d [Text ''Please send Long or Short''] None)
      | Step_entry1 \<Rightarrow>
          (case float_of e text of
             None \<Rightarrow> Return data d [Text ''Enter a number.''] None
           | Some v \<Rightarrow> Advance (data\<lparr>entry_targets := Some [v]\<rparr>) Step_entry2_q d)
      | Step_entry2_q \<Rightarrow>
          (if lower text \<in> set yes_words then Advance data Step_entry2 d
           else Advance data Step_tp1 d)
      | Step_entry2 \<Rightarrow>
          (case entry_targets data of
             None \<Rightarrow> Return data d [Text ''Enter a number.''] None
           | Some entries \<Rightarrow>
               (case float_of e text of
                  None \<Rightarrow> Return data d [Text ''Enter a number.''] None
                | Some v \<Rightarrow> Advance (data\<lparr>entry_targets := Some (entries @ [v])\<rparr>) Step_tp1 d))
      | Step_tp1 \<Rightarrow>
          (case float_of e text of
             None \<Rightarrow> Return data d [Text ''Enter a number.''] None
           | Some v \<Rightarrow> Advance (data\<lparr>tp_targets := Some [v]\<rparr>) Step_tp2_q d)
      | Step_tp2_q \<Rightarrow>
          (if lower text \<in> set yes_words then Advance data Step_tp2 d
           else Advance data Step_sl d)
      | Step_tp2 \<Rightarrow>
          (case tp_targets data of
             None \<Rightarrow> Return data d [Text ''Enter a number.''] None
           | Some tps \<Rightarrow>
               (case float_of e text of
                  None \<Rightarrow> Return data d [Text ''Enter a number.''] None
                | Some v \<Rightarrow> Advance (data\<lparr>tp_targets := Some (tps @ [v])\<rparr>) Step_sl d))
      | _ \<Rightarrow> Return data d [] None)"

subsection \<open>The terminal step\<close>

text \<open>\<open>tps[i] if i < len(tps) else tps[-1]\<close>; \<open>tps[-1]\<close> raises on the empty list.\<close>

definition sl_target :: "num list \<Rightarrow> nat \<Rightarrow> error + num" where
  "sl_target tps i =
     (if i < length tps then Inr (tps ! i)
      else if tps = [] then Inl IndexError else Inr (last tps))"

text \<open>The local variables of the loop over the legs; \<open>base_balance\<close> and \<open>bal_id\<close> are
  unbound until the first iteration has run.\<close>

record leg_state =
  profits :: "num list"
  leg_losses :: "num list"
  raw_pnls :: "num list"
  total_pnl :: num
  base_balance :: "num option"
  bal_id :: "int option"

definition no_legs :: leg_state where
  "no_legs = \<lparr>profits = [], leg_losses = [], raw_pnls = [], total_pnl = 0,
              base_balance = None, bal_id = None\<rparr>"

text \<open>The loop \<open>for i in range(len(entries))\<close>, from index \<open>i\<close> over the entries still to
  do. The \<open>SELECT\<close> of leg \<open>i\<close> is database call \<open>i + 1\<close> (call 0 opened the connection);
  it reads the table as it was when the handler began, since nothing has been written.\<close>

fun sl_loop ::
  "env \<Rightarrow> db \<Rightarrow> int \<Rightarrow> num list \<Rightarrow> num \<Rightarrow> string \<Rightarrow> nat \<Rightarrow> num list \<Rightarrow> leg_state
     \<Rightarrow> error + leg_state" where
  "sl_loop e d chat_id tps lots ttype i [] st = Inr st"
| "sl_loop e d chat_id tps lots ttype i (ent # rest) st =
     (case sl_target tps i of
        Inl ex \<Rightarrow> Inl ex
      | Inr tp \<Rightarrow>
          (let val = calculate_pnl_value ent tp lots ttype in
           if fail_at e = Some (Suc i) then Inl OperationalError
           else (case select_today d (today e) chat_id of
                   None \<Rightarrow> Inl TypeError
                 | Some brow \<Rightarrow>
                     (let pct = calculate_balance_percent (balance brow) val
                      in sl_loop e d chat_id tps lots ttype (Suc i) rest
                           (st\<lparr>raw_pnls := raw_pnls st @ [val],
                               total_pnl := total_pnl st + val,
                               base_balance := Some (balance brow),
                               bal_id := Some (b_id brow),
                               profits := (if val \<ge> 0 then profits st @ [pct] else profits st),
                               leg_losses := (if val \<ge> 0 then leg_losses st
                                              else leg_losses st @ [pct])\<rparr>)))))"

text \<open>The body of the inner \<open>try\<close>, up to the commit. Any exception leaves it through the
  \<open>except Exception\<close> of the step, and the connection is closed without a commit: the
  result is then the exception and the database rolled back. The calls are the connection
  (call 0), one read per leg, the insert, the update and the commit.\<close>

definition sl_transaction ::
  "env \<Rightarrow> db \<Rightarrow> int \<Rightarrow> trade_data \<Rightarrow> (error \<times> db) + (db \<times> num \<times> num)" where
  "sl_transaction e d chat_id data =
     (if fail_at e = Some 0 then Inl (OperationalError, d) else
      (case entry_targets data of None \<Rightarrow> Inl (KeyError, d) | Some entries \<Rightarrow>
      (case tp_targets data of None \<Rightarrow> Inl (KeyError, d) | Some tps \<Rightarrow>
      (case d_lots data of None \<Rightarrow> Inl (KeyError, d) | Some lots \<Rightarrow>
      (case d_type data of None \<Rightarrow> Inl (KeyError, d) | Some ttype \<Rightarrow>
      (case sl_loop e d chat_id tps lots ttype 0 entries no_legs of
         Inl ex \<Rightarrow> Inl (ex, d) | Inr st \<Rightarrow>
      (case d_currency data of None \<Rightarrow> Inl (KeyError, d) | Some cur \<Rightarrow>
      (case d_sl data of None \<Rightarrow> Inl (KeyError, d) | Some sl \<Rightarrow>
      (if fail_at e = Some (length entries + 1) then Inl (OperationalError, d) else
      (let (new_id, d1) = insert_calc d (today e)
             \<lparr>t_id = 0, t_day = 0, t_currency = cur, t_lots = lots, t_losses = leg_losses st,
              t_gains = profits st, t_entrytarget = entries, t_takeprofittarget = tps,
              t_stoploss = sl, t_type = ttype, t_totalbalance = raw_pnls st\<rparr> in
       (case base_balance st of None \<Rightarrow> Inl (NameError, rollback d d1) | Some base \<Rightarrow>
       (let new_balance = base + total_pnl st in
        (case bal_id st of None \<Rightarrow> Inl (NameError, rollback d d1) | Some bid \<Rightarrow>
        (if fail_at e = Some (length entries + 2) then Inl (OperationalError, rollback d d1) else
        (let d2 = update_balance_link d1 new_balance new_id bid in
         (if fail_at e = Some (length entries + 3) then Inl (OperationalError, rollback d d1)
          else Inr (d2, total_pnl st, new_balance)))))))))))))))))"

text \<open>The number of database calls of the transaction of a session's data.\<close>

definition sl_calls :: "trade_data \<Rightarrow> nat" where
  "sl_calls data = (case entry_targets data of None \<Rightarrow> 0 | Some entries \<Rightarrow> length entries) + 4"

text \<open>\<open>start\<close> as the last action of a handler that has made \<open>n\<close> database calls. After the
  menu is sent, \<open>delete_and_save_message_id\<close> opens a connection before its own \<open>try\<close>:
  this is call \<open>n\<close> of the handler, and its failure is raised to the caller. Whatever
  fails later in that function is swallowed by its \<open>except: pass\<close>. A user outside the
  allow-list gets no menu and no database call.\<close>

definition start_call ::
  "env \<Rightarrow> nat \<Rightarrow> user_states \<Rightarrow> int \<Rightarrow> user_states \<times> reply list \<times> error option" where
  "start_call e n us chat_id =
     (let (us', msgs) = start e us chat_id
      in (us', msgs,
          if chat_id \<in> set (sudos e) \<and> fail_at e = Some n then Some OperationalError else None))"

text \<open>The step \<open>sl\<close>. The conversion of the text, the transaction, the message \<open>Saved\<close>,
  the deletion of the session and the call of \<open>start\<close> are all inside one \<open>try\<close>, whose
  \<open>except Exception\<close> answers \<open>Error saving.\<close> and returns.\<close>

definition sl_step ::
  "env \<Rightarrow> user_states \<Rightarrow> db \<Rightarrow> int \<Rightarrow> session \<Rightarrow> trade_data \<Rightarrow> string \<Rightarrow> outcome" where
  "sl_step e us d chat_id sess data text =
     (case float_of e text of
        None \<Rightarrow> \<lparr>states = us, database = d, replies = [Text ''Error saving.''], raised = None\<rparr>
      | Some v \<Rightarrow>
          (let data = data\<lparr>d_sl := Some v\<rparr>;
               us1 = us(chat_id \<mapsto> store_data sess data)
           in case sl_transaction e d chat_id data of
                Inl (ex, d0) \<Rightarrow>
                  \<lparr>states = us1, database = d0, replies = [Text ''Error saving.''], raised = None\<rparr>
              | Inr (d', pnl_sum, new_balance) \<Rightarrow>
                  (let (us2, msgs, ex) = start_call e (sl_calls data) (us1(chat_id := None)) chat_id
                   in \<lparr>states = us2, database = d',
                       replies = Saved pnl_sum new_balance # msgs
                                 @ (case ex of None \<Rightarrow> [] | Some _ \<Rightarrow> [Text ''Error saving.'']),
                       raised = None\<rparr>)))"

subsection \<open>The edit step and the handler\<close>

definition edit_val_step ::
  "env \<Rightarrow> user_states \<Rightarrow> db \<Rightarrow> int \<Rightarrow> session \<Rightarrow> string \<Rightarrow> outcome" where
  "edit_val_step e us d chat_id sess text =
     (case float_of e text of
        None \<Rightarrow> \<lparr>states = us, database = d, replies = [Text ''Please enter a valid number.''],
                 raised = None\<rparr>
      | Some val \<Rightarrow>
          (case s_day sess of
             None \<Rightarrow> \<lparr>states = us, database = d, replies = [], raised = Some KeyError\<rparr>
           | Some day \<Rightarrow>
               if fails_within e 3
               then \<lparr>states = us, database = d, replies = [], raised = Some OperationalError\<rparr>
               else (let (us', msgs, ex) = start_call e 3 (us(chat_id := None)) chat_id
                     in \<lparr>states = us', database = update_balance_day d val chat_id day,
                         replies = Text ''Updated.'' # msgs, raised = ex\<rparr>)))"

definition message_handler :: "env \<Rightarrow> user_states \<Rightarrow> db \<Rightarrow> int \<Rightarrow> string \<Rightarrow> outcome" where
  "message_handler e us d chat_id message_text =
     (let text = clean_text message_text in
      case us chat_id of
        None \<Rightarrow> \<lparr>states = us, database = d, replies = [], raised = None\<rparr>
      | Some sess \<Rightarrow>
          (case s_step sess of
             None \<Rightarrow> \<lparr>states = us, database = d, replies = [], raised = None\<rparr>
           | Some curr_state \<Rightarrow>
               if curr_state = Step_edit_val then edit_val_step e us d chat_id sess text
               else
                 (let data = (case s_data sess of None \<Rightarrow> empty_data | Some x \<Rightarrow> x) in
                  if curr_state = Step_sl then sl_step e us d chat_id sess data text
                  else
                    (case flow_branch e d chat_id curr_state data text of
                       Return data' d' msgs ex \<Rightarrow>
                         \<lparr>states = us(chat_id \<mapsto> store_data sess data'), database = d',
                          replies = msgs, raised = ex\<rparr>
                     | Advance data' next_step d' \<Rightarrow>
                         \<lparr>states = us(chat_id \<mapsto> (store_data sess data')\<lparr>s_step := Some next_step\<rparr>),
                          database = d',
                          replies = (case prompt_map next_step of None \<Rightarrow> []
                                     | Some p \<Rightarrow> [Text p]),
                          raised = None\<rparr>))))"

section \<open>Reports\<close>

text \<open>The loop over the legs of one stored trade, the same in the day, week and month
  views: \<open>tp = tps[i] if i < len(tps) else 0\<close>.\<close>

definition view_target :: "num list \<Rightarrow> nat \<Rightarrow> num" where
  "view_target tps i = (if i < length tps then tps ! i else 0)"

definition view_pnls :: "trade \<Rightarrow> num list" where
  "view_pnls t =
     map (\<lambda>i. calculate_pnl_value (t_entrytarget t ! i) (view_target (t_takeprofittarget t) i)
                (t_lots t) (t_type t))
         [0..<length (t_entrytarget t)]"

fun add_pnl :: "num \<times> num \<Rightarrow> num \<Rightarrow> num \<times> num" where
  "add_pnl (total_profit, total_loss) val =
     (if val \<ge> 0 then (total_profit + val, total_loss) else (total_profit, total_loss + \<bar>val\<bar>))"

definition trades_totals :: "num \<times> num \<Rightarrow> trade list \<Rightarrow> num \<times> num" where
  "trades_totals acc trades = fold (\<lambda>t a. fold (\<lambda>val a'. add_pnl a' val) (view_pnls t) a) trades acc"

text \<open>The loop over the fetched \<open>balances\<close> rows; \<open>if b_row[3]\<close> skips a \<open>NULL\<close> and an
  empty link list.\<close>

definition rows_totals :: "db \<Rightarrow> balance_row list \<Rightarrow> num \<times> num" where
  "rows_totals d rows =
     fold (\<lambda>b_row acc.
             case forIds b_row of None \<Rightarrow> acc
             | Some calc_ids \<Rightarrow>
                 if calc_ids = [] then acc else trades_totals acc (select_calcs d calc_ids))
          rows (0, 0)"

definition then_start :: "env \<Rightarrow> user_states \<Rightarrow> db \<Rightarrow> int \<Rightarrow> reply \<Rightarrow> outcome" where
  "then_start e us d chat_id msg =
     (let (us', msgs) = start e us chat_id
      in \<lparr>states = us', database = d, replies = msg # msgs, raised = None\<rparr>)"

definition daily_chosen :: "env \<Rightarrow> user_states \<Rightarrow> db \<Rightarrow> int \<Rightarrow> int \<Rightarrow> outcome" where
  "daily_chosen e us d chat_id bid =
     (case find (\<lambda>r. b_id r = bid \<and> userid r = chat_id) (balances d) of
        None \<Rightarrow> then_start e us d chat_id (Text ''No information found.'')
      | Some balance_row \<Rightarrow>
          (case forIds balance_row of
             None \<Rightarrow> then_start e us d chat_id (Text ''No information found.'')
           | Some calc_ids \<Rightarrow>
               if calc_ids = [] then then_start e us d chat_id (Text ''No information found.'')
               else
                 (let rows = select_calcs d calc_ids;
                      (total_profit_usd, total_loss_usd) = trades_totals (0, 0) rows
                  in then_start e us d chat_id
                       (Daily_report
                          \<lparr>ds_day = b_day balance_row, ds_count = length rows,
                           ds_rows = map (\<lambda>row. (t_id row, view_pnls row)) rows,
                           ds_total_profit = total_profit_usd, ds_total_loss = total_loss_usd,
                           ds_gains_pct = sum_list (concat (map t_gains rows)),
                           ds_losses_pct = sum_list (concat (map t_losses rows)),
                           ds_final_balance = balance balance_row\<rparr>))))"

subsection \<open>The week list and its selection tokens\<close>

text \<open>\<open>create_keyboard(items, 1, "weekly", chat_id)\<close>: each of the first \<open>PER_PAGE = 10\<close>
  items gets a fresh token, stored in the \<open>weekly_map\<close> of the session with the ids of the
  week.\<close>

fun register_weeks ::
  "(nat \<Rightarrow> string) \<Rightarrow> nat \<Rightarrow> week_item list \<Rightarrow> session \<Rightarrow> session \<times> (date \<times> date \<times> string) list" where
  "register_weeks u j [] sess = (sess, [])"
| "register_weeks u j ((ids, mn, mx) # rest) sess =
     (let unique_key = u j;
          m = (case weekly_map sess of None \<Rightarrow> [] | Some m \<Rightarrow> m);
          (sess', buttons) =
             register_weeks u (Suc j) rest (sess\<lparr>weekly_map := Some (AList.update unique_key ids m)\<rparr>)
      in (sess', (mn, mx, unique_key) # buttons))"

definition create_keyboard_weekly ::
  "env \<Rightarrow> user_states \<Rightarrow> int \<Rightarrow> week_item list \<Rightarrow> user_states \<times> (date \<times> date \<times> string) list" where
  "create_keyboard_weekly e us chat_id items =
     (let current_items = take 10 items in
      if current_items = [] then (us, [])
      else (let (sess, us1) = get_state us chat_id;
                (sess', buttons) = register_weeks (uuid4 e) 0 current_items sess
            in (us1(chat_id \<mapsto> sess'), buttons)))"

definition weekly_report :: "env \<Rightarrow> user_states \<Rightarrow> db \<Rightarrow> int \<Rightarrow> outcome" where
  "weekly_report e us d chat_id =
     (let raw = sort_key fst (map (\<lambda>r. (b_id r, b_day r))
                                (filter (\<lambda>r. userid r = chat_id) (balances d))) in
      if raw = [] then \<lparr>states = us, database = d, replies = [Text ''No data found.''], raised = None\<rparr>
      else (case weekly_items raw of
              Inl ex \<Rightarrow> \<lparr>states = us, database = d, replies = [], raised = Some ex\<rparr>
            | Inr items \<Rightarrow>
                (let (us', buttons) = create_keyboard_weekly e us chat_id items
                 in \<lparr>states = us', database = d, replies = [Week_menu buttons], raised = None\<rparr>)))"

text \<open>Resolving a token: \<open>user_states[chat_id].get("weekly_map", {}).get(unique_key)\<close>.\<close>

definition resolve_token :: "user_states \<Rightarrow> int \<Rightarrow> string \<Rightarrow> int list option \<times> user_states" where
  "resolve_token us chat_id unique_key =
     (let (sess, us1) = get_state us chat_id
      in ((case weekly_map sess of None \<Rightarrow> None | Some m \<Rightarrow> map_of m unique_key), us1))"

definition weekly_chosen :: "env \<Rightarrow> user_states \<Rightarrow> db \<Rightarrow> int \<Rightarrow> string \<Rightarrow> outcome" where
  "weekly_chosen e us d chat_id unique_key =
     (let (found, us1) = resolve_token us chat_id unique_key in
      if found = None \<or> found = Some []
      then then_start e us1 d chat_id (Text ''Information expired. Please try again.'')
      else (let ids = (case found of None \<Rightarrow> [] | Some ids \<Rightarrow> ids);
                bals = filter (\<lambda>r. b_id r \<in> set ids \<and> userid r = chat_id) (balances d)
            in if bals = [] then then_start e us1 d chat_id (Text ''No information available.'')
               else (let (total_profit, total_loss) = rows_totals d bals
                     in then_start e us1 d chat_id
                          (Weekly_report (length bals) total_profit total_loss))))"

definition monthly_chosen :: "env \<Rightarrow> user_states \<Rightarrow> db \<Rightarrow> int \<Rightarrow> int \<Rightarrow> outcome" where
  "monthly_chosen e us d chat_id m_num =
     (let year = fst (year_month e (today e));
          rows = filter (\<lambda>r. year_month e (b_day r) = (year, m_num) \<and> userid r = chat_id)
                   (balances d)
      in if rows = [] then then_start e us d chat_id (Text ''Empty.'')
         else (let (prof, loss) = rows_totals d rows
               in then_start e us d chat_id (Monthly_report m_num prof loss)))"

section \<open>Deleting a trade\<close>

definition delete_exec :: "env \<Rightarrow> user_states \<Rightarrow> db \<Rightarrow> int \<Rightarrow> int \<Rightarrow> outcome" where
  "delete_exec e us d chat_id tid =
     then_start e us (unlink_calc (delete_calc d tid) tid) chat_id (Text ''Deleted.'')"

text \<open>The decimal literals among the texts that \<open>float\<close> accepts: an optional sign, digits,
  and an optional point with digits, with a digit on at least one side. It stands for
  \<open>float_of\<close> where a concrete parser is needed.\<close>

definition is_digit :: "char \<Rightarrow> bool" where
  "is_digit c = (CHR ''0'' \<le> c \<and> c \<le> CHR ''9'')"

definition digits_value :: "string \<Rightarrow> nat" where
  "digits_value s = foldl (\<lambda>n c. 10 * n + (of_char c - 48)) 0 s"

definition unsigned_literal :: "string \<Rightarrow> num option" where
  "unsigned_literal s =
     (let ip = takeWhile is_digit s; rest = dropWhile is_digit s in
      if rest = [] then (if ip = [] then None else Some (of_nat (digits_value ip)))
      else if hd rest = CHR ''.'' \<and> list_all is_digit (tl rest) \<and> (ip \<noteq> [] \<or> tl rest \<noteq> [])
      then Some (of_nat (digits_value ip) + of_nat (digits_value (tl rest)) / 10 ^ length (tl rest))
      else None)"

definition decimal_literal :: "string \<Rightarrow> num option" where
  "decimal_literal s =
     (case s of
        [] \<Rightarrow> None
      | c # r \<Rightarrow>
          if c = CHR ''-'' then map_option uminus (unsigned_literal r)
          else if c = CHR ''+'' then unsigned_literal r
          else unsigned_literal s)"

section \<open>A conversation and example states\<close>

text \<open>The messages of one user handled in turn, each by \<open>message_handler\<close> on the sessions
  and the database that the previous one left.\<close>

fun feed :: "env \<Rightarrow> int \<Rightarrow> string list \<Rightarrow> outcome \<Rightarrow> outcome" where
  "feed e chat_id [] out = out"
| "feed e chat_id (m # ms) out =
     feed e chat_id ms (message_handler e (states out) (database out) chat_id m)"

text \<open>An environment for user 7 on 2024-04-24 (day 739000) in which nothing fails, an empty
  database, and the state of user 7 at the step \<open>sl\<close> of a trade with two entries and one
  target, which the flow reaches from the empty database (lemma \<open>example_flow\<close>).\<close>

definition env_ok :: env where
  "env_ok = \<lparr>float_of = decimal_literal, today = 739000, year_month = (\<lambda>d. (2024, 4)),
             sudos = [7], uuid4 = (\<lambda>n. replicate (Suc n) CHR ''a''), fail_at = None\<rparr>"

definition db_empty :: db where
  "db_empty = \<lparr>calcbalances = [], balances = [], calc_seq = 1, bal_seq = 1\<rparr>"

definition data_two_legs :: trade_data where
  "data_two_legs = \<lparr>d_currency = Some ''EURUSD'', d_balance = Some 1000, d_lots = Some 1,
       d_type = Some ''long'', entry_targets = Some [11 / 10, 111 / 100],
       tp_targets = Some [28 / 25], d_sl = None\<rparr>"

definition sess_sl :: session where
  "sess_sl = \<lparr>s_step = Some Step_sl, s_data = Some data_two_legs, s_day = None, weekly_map = None\<rparr>"

definition db_day :: db where
  "db_day = \<lparr>calcbalances = [],
             balances = [\<lparr>b_id = 1, forIds = None, balance = 1000, b_day = 739000, userid = 7\<rparr>],
             calc_seq = 1, bal_seq = 2\<rparr>"

text \<open>The database that the terminal step leaves from \<open>sess_sl\<close> and \<open>db_day\<close> with the stop
  loss \<open>1.08\<close> (lemma \<open>example_saved\<close>): one trade with two entries and a single target.\<close>

definition db_short :: db where
  "db_short = \<lparr>calcbalances =
        [\<lparr>t_id = 1, t_day = 739000, t_currency = ''EURUSD'', t_lots = 1, t_losses = [],
          t_gains = [1 / 5, 1 / 10], t_entrytarget = [11 / 10, 111 / 100],
          t_takeprofittarget = [28 / 25], t_stoploss = 27 / 25, t_type = ''long'',
          t_totalbalance = [2, 1]\<rparr>],
      balances = [\<lparr>b_id = 1, forIds = Some [1], balance = 1003, b_day = 739000, userid = 7\<rparr>],
      calc_seq = 2, bal_seq = 2\<rparr>"

section \<open>Properties of the PnL calculator\<close>






lemma bit_length_pos: "0 < n \<Longrightarrow> bit_length n = bit_length (n div 2) + 1"
  by (subst bit_length.simps) simp

lemma bit_length_nonpos: "n \<le> 0 \<Longrightarrow> bit_length n = 0"
  by (subst bit_length.simps) simp

lemma bit_length_nonneg: "0 \<le> bit_length n"
  by (induction n rule: bit_length.induct) (subst bit_length.simps, simp)

lemma bit_length_bounds: "0 < n \<Longrightarrow> 2 ^ nat (bit_length n - 1) \<le> n \<and> n < 2 ^ nat (bit_length n)"
proof (induction n rule: bit_length.induct)
  case (1 n)
  show ?case
  proof (cases "n = 1")
    case True
    then show ?thesis by (simp add: bit_length_pos bit_length_nonpos)
  next
    case False
    with "1.prems" have pos: "0 < n div 2" by simp
    with "1.IH" "1.prems" have ih: "2 ^ nat (bit_length (n div 2) - 1) \<le> n div 2"
        "n div 2 < 2 ^ nat (bit_length (n div 2))" by simp_all
    have bl: "bit_length n = bit_length (n div 2) + 1" using "1.prems" by (rule bit_length_pos)
    have "bit_length (n div 2) = bit_length (n div 2 div 2) + 1" using pos by (rule bit_length_pos)
    then have ge: "1 \<le> bit_length (n div 2)" using bit_length_nonneg [of "n div 2 div 2"] by simp
    then have e1: "nat (bit_length n - 1) = Suc (nat (bit_length (n div 2) - 1))"
      and e2: "nat (bit_length n) = Suc (nat (bit_length (n div 2)))"
      unfolding bl by simp_all
    have d: "2 * (n div 2) \<le> n" "n \<le> 2 * (n div 2) + 1" by presburger+
    show ?thesis unfolding e1 e2 power_Suc using ih d by linarith
  qed
qed

lemma pow2_powi: "pow2 n = 2 powi n"
  by (simp add: pow2_def power_int_def inverse_eq_divide power_one_over)

lemma pow2_pos: "0 < pow2 n"
  by (simp add: pow2_def)

lemma pow2_nat: "0 \<le> n \<Longrightarrow> pow2 n = 2 ^ nat n"
  by (simp add: pow2_def)

lemma ilog2_bounds:
  assumes "x \<noteq> 0"
  shows "pow2 (ilog2 x) \<le> \<bar>x\<bar> \<and> \<bar>x\<bar> < pow2 (ilog2 x + 1)"
proof -
  obtain p q where pq: "quotient_of \<bar>x\<bar> = (p, q)" by (cases "quotient_of \<bar>x\<bar>")
  then have q: "0 < q" and x: "\<bar>x\<bar> = of_int p / of_int q"
    by (simp_all add: quotient_of_denom_pos quotient_of_div)
  from assms x q have p: "0 < p"
    by (smt (verit) abs_ge_zero divide_nonpos_pos of_int_0_less_iff of_int_pos
        zero_less_abs_iff not_le of_int_le_0_iff)
  let ?a = "bit_length p - bit_length q"
  have bp: "(2::rat) ^ nat (bit_length p - 1) \<le> of_int p" "of_int p < (2::rat) ^ nat (bit_length p)"
    using bit_length_bounds [OF p]
    by (metis of_int_le_iff of_int_numeral of_int_power, metis of_int_less_iff of_int_numeral of_int_power)
  have bq: "(2::rat) ^ nat (bit_length q - 1) \<le> of_int q" "of_int q < (2::rat) ^ nat (bit_length q)"
    using bit_length_bounds [OF q]
    by (metis of_int_le_iff of_int_numeral of_int_power, metis of_int_less_iff of_int_numeral of_int_power)
  have blp: "1 \<le> bit_length p" using bit_length_pos [OF p] bit_length_nonneg [of "p div 2"] by simp
  have blq: "1 \<le> bit_length q" using bit_length_pos [OF q] bit_length_nonneg [of "q div 2"] by simp
  have P1: "pow2 (bit_length p - 1) \<le> of_int p" and P2: "of_int p < pow2 (bit_length p)"
    and Q1: "pow2 (bit_length q - 1) \<le> of_int q" and Q2: "of_int q < pow2 (bit_length q)"
    using bp bq blp blq by (simp_all add: pow2_nat)
  have qpos: "(0::rat) < of_int q" using q by simp
  have upper: "\<bar>x\<bar> < pow2 (?a + 1)"
  proof -
    have "of_int p / of_int q < pow2 (bit_length p) / pow2 (bit_length q - 1)"
      by (rule frac_less) (use P2 Q1 p pow2_pos in simp_all)
    also have "\<dots> = pow2 (?a + 1)"
      by (simp add: pow2_powi power_int_diff [symmetric] algebra_simps)
    finally show ?thesis by (simp add: x)
  qed
  have lower: "pow2 (?a - 1) \<le> \<bar>x\<bar>"
  proof -
    have "pow2 (bit_length p - 1) / pow2 (bit_length q) \<le> of_int p / of_int q"
      by (rule frac_le) (use P1 Q2 p qpos in simp_all)
    moreover have "pow2 (bit_length p - 1) / pow2 (bit_length q) = pow2 (?a - 1)"
      by (simp add: pow2_powi power_int_diff [symmetric] algebra_simps)
    ultimately show ?thesis by (simp add: x)
  qed
  show ?thesis
    using upper lower by (simp add: ilog2_def pq Let_def)
qed





text \<open>At the same input the idealisation in exact rationals rounds the exact product 0.015
  to 0.02: it differs from the doubles in the last place.\<close>

lemma rational_idealisation_differs:
  "calculate_pnl_value (11 / 10) (110015 / 100000) 1 ''long'' = 1 / 50
   \<and> to_double (1 / 100) \<noteq> to_double (1 / 50)"
  by code_simp

section \<open>Properties of week bucketing\<close>

lemma weekday_week_start: "weekday (week_start d) = 6"
  unfolding week_start_def weekday_def by presburger

lemma keys_dict_append: "fst ` set (dict_append k v w) = insert k (fst ` set w)"
  by (induction k v w rule: dict_append.induct) auto

lemma distinct_dict_append: "distinct (map fst w) \<Longrightarrow> distinct (map fst (dict_append k v w))"
  by (induction k v w rule: dict_append.induct) (auto simp: keys_dict_append)

lemma concat_dict_append:
  "mset (concat (map snd (dict_append k v w))) = add_mset v (mset (concat (map snd w)))"
  by (induction k v w rule: dict_append.induct) auto

lemma map_of_dict_append:
  "map_of (dict_append k v w) =
     (map_of w)(k \<mapsto> (case map_of w k of None \<Rightarrow> [v] | Some vs \<Rightarrow> vs @ [v]))"
  by (induction k v w rule: dict_append.induct) (auto simp: fun_eq_iff)

lemma fold_weeks_distinct:
  "distinct (map fst w) \<Longrightarrow> distinct (map fst (fold add_week raw w))"
proof (induction raw arbitrary: w)
  case Nil
  then show ?case by simp
next
  case (Cons p raw)
  obtain bid dobj where p: "p = (bid, dobj)" by (cases p)
  show ?case using Cons.prems by (simp add: p Cons.IH distinct_dict_append)
qed

lemma fold_weeks_concat:
  "mset (concat (map snd (fold add_week raw w))) = mset raw + mset (concat (map snd w))"
proof (induction raw arbitrary: w)
  case Nil
  then show ?case by simp
next
  case (Cons p raw)
  obtain bid dobj where p: "p = (bid, dobj)" by (cases p)
  show ?case by (simp add: p Cons.IH concat_dict_append)
qed

lemma fold_weeks_keys:
  "fst ` set (fold add_week raw w) = week_start ` snd ` set raw \<union> fst ` set w"
proof (induction raw arbitrary: w)
  case Nil
  then show ?case by simp
next
  case (Cons p raw)
  obtain bid dobj where p: "p = (bid, dobj)" by (cases p)
  show ?case by (simp add: p Cons.IH keys_dict_append)
qed

text \<open>The bucket of a key holds the rows of that week in the order of the input.\<close>

lemma fold_weeks_map_of:
  "map_of (fold add_week raw w) k =
     (let new = filter (\<lambda>p. week_start (snd p) = k) raw in
      case map_of w k of None \<Rightarrow> (if new = [] then None else Some new)
      | Some vs \<Rightarrow> Some (vs @ new))"
proof (induction raw arbitrary: w)
  case Nil
  then show ?case by (simp split: option.splits)
next
  case (Cons p raw)
  obtain bid dobj where p: "p = (bid, dobj)" by (cases p)
  show ?case
    by (simp add: Cons.IH p map_of_dict_append Let_def split: option.splits)
qed

lemma weeks_of_distinct: "distinct (map fst (weeks_of raw))"
  by (simp add: weeks_of_def fold_weeks_distinct)

lemma weeks_of_member:
  assumes "(k, v) \<in> set (weeks_of raw)"
  shows "v = filter (\<lambda>p. week_start (snd p) = k) raw \<and> v \<noteq> []"
proof -
  have "map_of (weeks_of raw) k = Some v"
    using assms weeks_of_distinct by simp
  then show ?thesis
    by (simp add: weeks_of_def fold_weeks_map_of Let_def split: if_splits)
qed

lemma sorted_weeks_set: "set (sorted_weeks raw) = set (weeks_of raw)"
  by (simp add: sorted_weeks_def)

lemma sorted_weeks_keys_sorted: "sorted (map fst (sorted_weeks raw))"
  by (simp add: sorted_weeks_def)

lemma sorted_weeks_keys_distinct: "distinct (map fst (sorted_weeks raw))"
  using weeks_of_distinct [of raw] by (simp add: sorted_weeks_def distinct_map)

lemma sorted_weeks_keys_set: "set (map fst (sorted_weeks raw)) = week_start ` snd ` set raw"
  by (simp add: sorted_weeks_set weeks_of_def fold_weeks_keys)

lemma mset_concat_values:
  "mset (concat (map snd w)) = sum_mset (image_mset (\<lambda>p. mset (snd p)) (mset w))"
  by (induction w) auto

lemma sorted_weeks_concat: "mset (concat (map snd (sorted_weeks raw))) = mset raw"
proof -
  have "mset (sorted_weeks raw) = mset (weeks_of raw)"
    by (simp add: sorted_weeks_def)
  then have "mset (concat (map snd (sorted_weeks raw))) = mset (concat (map snd (weeks_of raw)))"
    by (simp add: mset_concat_values)
  then show ?thesis by (simp add: weeks_of_def fold_weeks_concat)
qed

lemma sorted_weeks_member:
  "(k, v) \<in> set (sorted_weeks raw) \<Longrightarrow>
     v = filter (\<lambda>p. week_start (snd p) = k) raw \<and> v \<noteq> []"
  by (simp add: sorted_weeks_set weeks_of_member)

lemma fold_min_Min: "fold min xs (x::int) = Min (set (x # xs))"
  by (rule Min.set_eq_fold [symmetric])

lemma fold_max_Max: "fold max xs (x::int) = Max (set (x # xs))"
  by (rule Max.set_eq_fold [symmetric])

lemma week_item_nonempty:
  "v \<noteq> [] \<Longrightarrow> week_item v = Inr (map fst v, Min (snd ` set v), Max (snd ` set v))"
proof (cases v)
  case Nil
  assume "v \<noteq> []"
  with Nil show ?thesis by simp
next
  case (Cons a list)
  have "set (snd a # map snd list) = snd ` set v" by (simp add: Cons)
  then show ?thesis
    by (simp add: week_item_def Cons fold_min_Min fold_max_Max del: set_simps)
qed

lemma week_items_nonempty:
  "\<forall>(k, v) \<in> set w. v \<noteq> [] \<Longrightarrow>
   week_items w = Inr (map (\<lambda>(k, v). (map fst v, Min (snd ` set v), Max (snd ` set v))) w)"
proof (induction w)
  case Nil
  then show ?case by simp
next
  case (Cons a w)
  obtain k v where a: "a = (k, v)" by (cases a)
  with Cons show ?case by (simp add: week_item_nonempty)
qed

lemma weekly_items_total:
  "weekly_items raw =
     Inr (map (\<lambda>(k, v). (map fst v, Min (snd ` set v), Max (snd ` set v))) (sorted_weeks raw))"
  unfolding weekly_items_def
  by (rule week_items_nonempty) (auto dest: sorted_weeks_member)

lemma sorted_weeks_perm_keys:
  assumes "mset raw' = mset raw"
  shows "map fst (sorted_weeks raw') = map fst (sorted_weeks raw)"
proof -
  have "set raw' = set raw" using assms by (metis set_mset_mset)
  then have "set (map fst (sorted_weeks raw')) = set (map fst (sorted_weeks raw))"
    by (simp only: sorted_weeks_keys_set)
  then show ?thesis
    using sorted_weeks_keys_sorted sorted_weeks_keys_distinct
    by (metis sorted_distinct_set_unique)
qed

lemma sorted_weeks_perm_members:
  assumes "mset raw' = mset raw" "(k, v') \<in> set (sorted_weeks raw')" "(k, v) \<in> set (sorted_weeks raw)"
  shows "mset v' = mset v"
proof -
  have "mset v' = filter_mset (\<lambda>p. week_start (snd p) = k) (mset raw')"
    using sorted_weeks_member [OF assms(2)] by (metis mset_filter)
  moreover have "mset v = filter_mset (\<lambda>p. week_start (snd p) = k) (mset raw)"
    using sorted_weeks_member [OF assms(3)] by (metis mset_filter)
  ultimately show ?thesis using assms(1) by simp
qed

text \<open>
  Claim C4. For every list \<open>raw\<close> of (record id, date) pairs, the week buckets built by
  \<open>weekly_report\<close> are emitted in ascending order of their keys, which are distinct; the
  buckets together hold exactly the input pairs, each as often as the input has it; the
  bucket of key \<open>k\<close> is not empty and holds, in input order, exactly the pairs whose date
  minus \<open>(weekday + 1) mod 7\<close> days is \<open>k\<close> (Monday = 0, Sunday = 6), so every pair is in
  exactly one bucket, and every key is a Sunday; the emitted item of a bucket is its
  member ids with the least and the greatest member date, and building the items never
  fails; and bucketing any rearrangement of the same records gives the same keys and, under
  each key, the same members.
\<close>

theorem week_bucketing:
  "sorted (map fst (sorted_weeks raw)) \<and> distinct (map fst (sorted_weeks raw))
   \<and> mset (concat (map snd (sorted_weeks raw))) = mset raw
   \<and> (\<forall>(k, v) \<in> set (sorted_weeks raw).
         v \<noteq> [] \<and> weekday k = 6
         \<and> v = filter (\<lambda>(bid, dobj). dobj - (weekday dobj + 1) mod 7 = k) raw)
   \<and> weekly_items raw =
       Inr (map (\<lambda>(k, v). (map fst v, Min (snd ` set v), Max (snd ` set v))) (sorted_weeks raw))
   \<and> (\<forall>raw'. mset raw' = mset raw \<longrightarrow>
         map fst (sorted_weeks raw') = map fst (sorted_weeks raw)
         \<and> (\<forall>k v v'. (k, v') \<in> set (sorted_weeks raw') \<and> (k, v) \<in> set (sorted_weeks raw)
               \<longrightarrow> mset v' = mset v))"
proof -
  have key: "(\<lambda>p. week_start (snd p) = k) = (\<lambda>(bid, dobj). dobj - (weekday dobj + 1) mod 7 = k)"
    for k :: int
    by (auto simp: week_start_def fun_eq_iff)
  have members: "\<forall>(k, v) \<in> set (sorted_weeks raw).
         v \<noteq> [] \<and> weekday k = 6
         \<and> v = filter (\<lambda>(bid, dobj). dobj - (weekday dobj + 1) mod 7 = k) raw"
  proof (clarify, intro conjI)
    fix k v
    assume kv: "(k, v) \<in> set (sorted_weeks raw)"
    from sorted_weeks_member [OF kv] show "v \<noteq> []" by blast
    from sorted_weeks_member [OF kv]
    show "v = filter (\<lambda>(bid, dobj). dobj - (weekday dobj + 1) mod 7 = k) raw"
      by (simp add: key)
    have "k \<in> set (map fst (sorted_weeks raw))" using kv by force
    then obtain dobj where "k = week_start dobj"
      unfolding sorted_weeks_keys_set by auto
    then show "weekday k = 6" by (simp add: weekday_week_start)
  qed
  show ?thesis
    using sorted_weeks_keys_sorted [of raw] sorted_weeks_keys_distinct [of raw]
      sorted_weeks_concat [of raw] members weekly_items_total [of raw]
      sorted_weeks_perm_keys [of _ raw] sorted_weeks_perm_members [of _ raw]
    by blast
qed

theorem week_bucketing_witness:
  "sorted_weeks [(1, 739000), (2, 739001), (3, 738990)]
     = [(738990, [(3, 738990)]), (738997, [(1, 739000), (2, 739001)])]
   \<and> weekly_items [(1, 739000), (2, 739001), (3, 738990)]
     = Inr [([3], 738990, 738990), ([1, 2], 739000, 739001)]
   \<and> weekday 738997 = 6
   \<and> mset [(3, 738990), (2, 739001), (1, 739000)] = mset [(1, 739000), (2, 739001), (3, 738990 :: int)]
   \<and> map fst (sorted_weeks [(3, 738990), (2, 739001), (1, 739000)]) = [738990, 738997]"
proof -
  let ?raw = "[(1, 739000), (2, 739001), (3, 738990)] :: (int \<times> date) list"
  let ?raw' = "[(3, 738990), (2, 739001), (1, 739000)] :: (int \<times> date) list"
  have sw: "sorted_weeks ?raw = [(738990, [(3, 738990)]), (738997, [(1, 739000), (2, 739001)])]"
    by code_simp
  have perm: "mset ?raw' = mset ?raw" by simp
  note wb = week_bucketing [of ?raw]
  have mem: "(738997, [(1, 739000), (2, 739001)]) \<in> set (sorted_weeks ?raw)"
    by (simp add: sw)
  from wb mem have sunday: "weekday 738997 = 6" by blast
  from wb have items: "weekly_items ?raw =
       Inr (map (\<lambda>(k, v). (map fst v, Min (snd ` set v), Max (snd ` set v))) (sorted_weeks ?raw))"
    by blast
  from wb perm have keys: "map fst (sorted_weeks ?raw') = map fst (sorted_weeks ?raw)"
    by blast
  show ?thesis using sw sunday items keys perm by simp
qed

section \<open>Properties of the terminal step\<close>

lemma sl_loop_success:
  assumes row: "select_today d (today e) chat_id = Some brow"
    and tps: "tps \<noteq> []" and nofail: "fail_at e = None"
  shows "sl_loop e d chat_id tps lots ttype i ents st =
     Inr (let vals = map (\<lambda>j. calculate_pnl_value (ents ! j)
                              (if i + j < length tps then tps ! (i + j) else last tps) lots ttype)
                       [0..<length ents]
          in st\<lparr>raw_pnls := raw_pnls st @ vals,
                 total_pnl := total_pnl st + sum_list vals,
                 base_balance := (if ents = [] then base_balance st else Some (balance brow)),
                 bal_id := (if ents = [] then bal_id st else Some (b_id brow)),
                 profits := profits st @ map (calculate_balance_percent (balance brow))
                                           (filter (\<lambda>v. v \<ge> 0) vals),
                 leg_losses := leg_losses st @ map (calculate_balance_percent (balance brow))
                                                 (filter (\<lambda>v. \<not> v \<ge> 0) vals)\<rparr>)"
proof (induction ents arbitrary: i st)
  case Nil
  then show ?case by simp
next
  case (Cons ent rest)
  show ?case
    using row tps nofail
    by (simp add: Cons.IH sl_target_def Let_def map_upt_Suc del: upt_Suc cong: if_cong)
qed

lemma sl_loop_success_all:
  assumes row: "select_today d (today e) chat_id = Some brow"
    and tps: "tps \<noteq> []" and nofail: "fail_at e = None" and ents: "ents \<noteq> []"
  shows "sl_loop e d chat_id tps lots ttype 0 ents no_legs =
     Inr (let vals = map (\<lambda>j. calculate_pnl_value (ents ! j)
                              (if j < length tps then tps ! j else last tps) lots ttype)
                       [0..<length ents]
          in \<lparr>profits = map (calculate_balance_percent (balance brow)) (filter (\<lambda>v. v \<ge> 0) vals),
              leg_losses = map (calculate_balance_percent (balance brow))
                             (filter (\<lambda>v. \<not> v \<ge> 0) vals),
              raw_pnls = vals, total_pnl = sum_list vals,
              base_balance = Some (balance brow), bal_id = Some (b_id brow)\<rparr>)"
  using sl_loop_success [OF row tps nofail, of lots ttype 0 ents no_legs] ents
  by (simp add: no_legs_def Let_def cong: if_cong)

lemma sl_transaction_success:
  assumes row: "select_today d (today e) chat_id = Some brow" and nofail: "fail_at e = None"
    and fields: "entry_targets data = Some entries" "entries \<noteq> []" "tp_targets data = Some tps"
      "tps \<noteq> []" "d_lots data = Some lots" "d_type data = Some ttype"
      "d_currency data = Some cur" "d_sl data = Some sl"
  shows "sl_transaction e d chat_id data =
     Inr (let base = balance brow;
              pnls = map (\<lambda>i. calculate_pnl_value (entries ! i)
                              (if i < length tps then tps ! i else last tps) lots ttype)
                       [0..<length entries]
          in (d\<lparr>calcbalances := calcbalances d @
                  [\<lparr>t_id = calc_seq d, t_day = today e, t_currency = cur, t_lots = lots,
                    t_losses = map (calculate_balance_percent base) (filter (\<lambda>v. \<not> v \<ge> 0) pnls),
                    t_gains = map (calculate_balance_percent base) (filter (\<lambda>v. v \<ge> 0) pnls),
                    t_entrytarget = entries, t_takeprofittarget = tps, t_stoploss = sl,
                    t_type = ttype, t_totalbalance = pnls\<rparr>],
                calc_seq := calc_seq d + 1,
                balances := map (\<lambda>r. if b_id r = b_id brow
                                      then r\<lparr>balance := base + sum_list pnls,
                                             forIds := array_append (forIds r) (calc_seq d)\<rparr>
                                      else r) (balances d)\<rparr>,
              sum_list pnls, base + sum_list pnls))"
  unfolding sl_transaction_def
  using nofail fields
  by (simp add: sl_loop_success_all [OF row fields(4) nofail fields(2)] insert_calc_def
      update_balance_link_def Let_def)

lemma find_map_same:
  assumes "\<And>x. P (f x) = P x"
  shows "find P (map f xs) = map_option f (find P xs)"
  using assms by (induction xs) auto

lemma select_today_after_link:
  "select_today (d\<lparr>calcbalances := cs, calc_seq := n,
        balances := map (\<lambda>r. if b_id r = bid then r\<lparr>balance := nb, forIds := fi r\<rparr> else r)
                      (balances d)\<rparr>) day uid
   = map_option (\<lambda>r. if b_id r = bid then r\<lparr>balance := nb, forIds := fi r\<rparr> else r)
       (select_today d day uid)"
  unfolding select_today_def by (simp add: find_map_same)

text \<open>
  Claim C9. In the terminal step of a session that holds a complete trade (at least one
  entry and one target), with today's row \<open>brow\<close> of the user in the database when the
  step begins and no database failure: every leg's percentage, stored in the gains or the
  losses of the new trade, is computed against the balance of \<open>brow\<close>, the balance when the
  step began (the per-leg reads all see it, since nothing is written inside the loop), and
  the balance written at the end is that base plus the sum of the signed PnL values of all
  legs; it is the balance that today's row then holds.
\<close>

theorem sl_step_same_base:
  assumes sess: "us chat_id = Some sess" "s_step sess = Some Step_sl" "s_data sess = Some data"
    and fields: "entry_targets data = Some entries" "entries \<noteq> []" "tp_targets data = Some tps"
      "tps \<noteq> []" "d_lots data = Some lots" "d_type data = Some ttype" "d_currency data = Some cur"
    and parse: "float_of e (clean_text message_text) = Some sl"
    and nofail: "fail_at e = None"
    and row: "select_today d (today e) chat_id = Some brow"
  shows "let out = message_handler e us d chat_id message_text;
             base = balance brow;
             pnls = map (\<lambda>i. calculate_pnl_value (entries ! i)
                             (if i < length tps then tps ! i else last tps) lots ttype)
                      [0..<length entries]
         in calcbalances (database out) = calcbalances d @
               [\<lparr>t_id = calc_seq d, t_day = today e, t_currency = cur, t_lots = lots,
                 t_losses = map (calculate_balance_percent base) (filter (\<lambda>v. \<not> v \<ge> 0) pnls),
                 t_gains = map (calculate_balance_percent base) (filter (\<lambda>v. v \<ge> 0) pnls),
                 t_entrytarget = entries, t_takeprofittarget = tps, t_stoploss = sl,
                 t_type = ttype, t_totalbalance = pnls\<rparr>]
            \<and> balances (database out) =
                 map (\<lambda>r. if b_id r = b_id brow
                          then r\<lparr>balance := base + sum_list pnls,
                                 forIds := array_append (forIds r) (calc_seq d)\<rparr>
                          else r) (balances d)
            \<and> map_option balance (select_today (database out) (today e) chat_id)
                 = Some (base + sum_list pnls)
            \<and> (\<exists>rest. replies out = Saved (sum_list pnls) (base + sum_list pnls) # rest)
            \<and> raised out = None"
proof -
  let ?data = "data\<lparr>d_sl := Some sl\<rparr>"
  have tx: "sl_transaction e d chat_id ?data = Inr (let base = balance brow;
              pnls = map (\<lambda>i. calculate_pnl_value (entries ! i)
                              (if i < length tps then tps ! i else last tps) lots ttype)
                       [0..<length entries]
          in (d\<lparr>calcbalances := calcbalances d @
                  [\<lparr>t_id = calc_seq d, t_day = today e, t_currency = cur, t_lots = lots,
                    t_losses = map (calculate_balance_percent base) (filter (\<lambda>v. \<not> v \<ge> 0) pnls),
                    t_gains = map (calculate_balance_percent base) (filter (\<lambda>v. v \<ge> 0) pnls),
                    t_entrytarget = entries, t_takeprofittarget = tps, t_stoploss = sl,
                    t_type = ttype, t_totalbalance = pnls\<rparr>],
                calc_seq := calc_seq d + 1,
                balances := map (\<lambda>r. if b_id r = b_id brow
                                      then r\<lparr>balance := base + sum_list pnls,
                                             forIds := array_append (forIds r) (calc_seq d)\<rparr>
                                      else r) (balances d)\<rparr>,
              sum_list pnls, base + sum_list pnls))"
    by (rule sl_transaction_success [OF row nofail]) (simp_all add: fields)
  show ?thesis
    unfolding message_handler_def sl_step_def
    by (simp add: sess parse tx Let_def select_today_after_link row start_call_def nofail
        split: prod.splits)
qed


lemma data_two_legs_fields:
  "entry_targets data_two_legs = Some [11 / 10, 111 / 100]"
  "tp_targets data_two_legs = Some [28 / 25]"
  "d_lots data_two_legs = Some 1" "d_type data_two_legs = Some ''long''"
  "d_currency data_two_legs = Some ''EURUSD''"
  by (simp_all add: data_two_legs_def)

lemma sess_sl_fields: "s_step sess_sl = Some Step_sl" "s_data sess_sl = Some data_two_legs"
  by (simp_all add: sess_sl_def)

lemma env_ok_fields: "fail_at env_ok = None" "today env_ok = 739000" "float_of env_ok = decimal_literal"
  by (simp_all add: env_ok_def)

lemma db_day_today:
  "select_today db_day 739000 7
     = Some \<lparr>b_id = 1, forIds = None, balance = 1000, b_day = 739000, userid = 7\<rparr>"
  by (simp add: select_today_def db_day_def)

lemma db_day_fields:
  "calcbalances db_day = []" "calc_seq db_day = 1"
  "balances db_day = [\<lparr>b_id = 1, forIds = None, balance = 1000, b_day = 739000, userid = 7\<rparr>]"
  by (simp_all add: db_day_def)

lemma parse_stop: "decimal_literal (clean_text ''1.08'') = Some (27 / 25)"
  by code_simp

lemma two_legs_values:
  "map (\<lambda>i. calculate_pnl_value ([11 / 10, 111 / 100] ! i)
              (if i < length [28 / 25 :: rat] then [28 / 25] ! i else last [28 / 25]) 1 ''long'')
       [0..<length [11 / 10, 111 / 100 :: rat]] = [2, 1]"
  by code_simp

theorem sl_step_same_base_witness:
  "select_today db_day (today env_ok) 7
     = Some \<lparr>b_id = 1, forIds = None, balance = 1000, b_day = 739000, userid = 7\<rparr>
   \<and> map t_totalbalance (calcbalances (database
         (message_handler env_ok [7 \<mapsto> sess_sl] db_day 7 ''1.08''))) = [[2, 1]]
   \<and> map t_gains (calcbalances (database
         (message_handler env_ok [7 \<mapsto> sess_sl] db_day 7 ''1.08''))) = [[1 / 5, 1 / 10]]
   \<and> map balance (balances (database
         (message_handler env_ok [7 \<mapsto> sess_sl] db_day 7 ''1.08''))) = [1003]"
proof -
  have row: "select_today db_day (today env_ok) 7
     = Some \<lparr>b_id = 1, forIds = None, balance = 1000, b_day = 739000, userid = 7\<rparr>"
    by (simp add: env_ok_fields db_day_today)
  have pct: "calculate_balance_percent 1000 2 = 1 / 5" "calculate_balance_percent 1000 1 = 1 / 10"
    by (simp_all add: calculate_balance_percent_def)
  have "let out = message_handler env_ok [7 \<mapsto> sess_sl] db_day 7 ''1.08'';
            base = balance \<lparr>b_id = 1, forIds = None, balance = 1000, b_day = 739000, userid = 7\<rparr>;
            pnls = map (\<lambda>i. calculate_pnl_value ([11 / 10, 111 / 100] ! i)
                     (if i < length [28 / 25 :: rat] then [28 / 25] ! i else last [28 / 25]) 1 ''long'')
                     [0..<length [11 / 10, 111 / 100 :: rat]]
        in calcbalances (database out) = calcbalances db_day @
               [\<lparr>t_id = calc_seq db_day, t_day = today env_ok, t_currency = ''EURUSD'', t_lots = 1,
                 t_losses = map (calculate_balance_percent base) (filter (\<lambda>v. \<not> v \<ge> 0) pnls),
                 t_gains = map (calculate_balance_percent base) (filter (\<lambda>v. v \<ge> 0) pnls),
                 t_entrytarget = [11 / 10, 111 / 100], t_takeprofittarget = [28 / 25],
                 t_stoploss = 27 / 25, t_type = ''long'', t_totalbalance = pnls\<rparr>]
            \<and> balances (database out) =
                 map (\<lambda>r. if b_id r = b_id \<lparr>b_id = 1, forIds = None, balance = 1000,
                                              b_day = 739000, userid = 7\<rparr>
                          then r\<lparr>balance := base + sum_list pnls,
                                 forIds := array_append (forIds r) (calc_seq db_day)\<rparr>
                          else r) (balances db_day)
            \<and> map_option balance (select_today (database out) (today env_ok) 7)
                 = Some (base + sum_list pnls)
            \<and> (\<exists>rest. replies out = Saved (sum_list pnls) (base + sum_list pnls) # rest)
            \<and> raised out = None"
    by (rule sl_step_same_base [where sess = sess_sl and data = data_two_legs])
       (simp_all add: sess_sl_fields data_two_legs_fields env_ok_fields parse_stop db_day_today)
  then show ?thesis
    unfolding two_legs_values Let_def
    by (simp add: row pct db_day_fields array_append_def)
qed

lemma sl_loop_db_failure:
  assumes "fail_at e = Some (Suc k)" "i \<le> k" "k < i + length ents"
  shows "\<exists>ex. sl_loop e d chat_id tps lots ttype i ents st = Inl ex"
  using assms
proof (induction ents arbitrary: i st)
  case Nil
  then show ?case by simp
next
  case (Cons ent rest)
  show ?case
  proof (cases "k = i")
    case True
    with Cons.prems show ?thesis by (simp split: sum.splits)
  next
    case False
    with Cons.prems have "Suc i \<le> k" "k < Suc i + length rest" by simp_all
    from Cons.IH [OF Cons.prems(1) this]
    show ?thesis using Cons.prems(1) by (auto split: sum.splits option.splits simp: Let_def)
  qed
qed

lemma rollback_tables:
  "calcbalances (rollback d work) = calcbalances d" "balances (rollback d work) = balances d"
  by (simp_all add: rollback_def)

lemma rollback_insert_calc:
  "rollback d (snd (insert_calc d day row)) = d\<lparr>calc_seq := calc_seq d + 1\<rparr>"
  by (simp add: rollback_def insert_calc_def)

text \<open>A transaction that raises leaves the tables as they were; the sequence of the trades
  is where it was, or one further when the insert had been done.\<close>

lemma sl_transaction_raises:
  assumes "sl_transaction e d chat_id data = Inl (ex, d0)"
  shows "d0 = d \<or> d0 = d\<lparr>calc_seq := calc_seq d + 1\<rparr>"
  using assms unfolding sl_transaction_def
  by (auto simp: Let_def rollback_insert_calc [simplified insert_calc_def, simplified]
      rollback_def insert_calc_def
      split: option.splits sum.splits if_splits)

lemma sl_transaction_db_failure:
  assumes fail: "fail_at e = Some n" and ents: "entry_targets data = Some entries"
    and n: "n \<le> length entries + 3"
  shows "\<exists>ex d0. sl_transaction e d chat_id data = Inl (ex, d0)"
proof (cases "1 \<le> n \<and> n \<le> length entries")
  case True
  then obtain k where k: "n = Suc k" "0 \<le> k" "k < 0 + length entries"
    by (cases n) auto
  have loop: "sl_loop e d chat_id tps lots ttype 0 entries no_legs \<noteq> Inr st" for tps lots ttype st
    using sl_loop_db_failure [OF _ k(2,3), of e d chat_id tps lots ttype no_legs] fail k(1) by auto
  show ?thesis
    unfolding sl_transaction_def using ents
    by (auto simp: loop split: option.splits sum.splits)
next
  case False
  with n have "n = 0 \<or> n = length entries + 1 \<or> n = length entries + 2 \<or> n = length entries + 3"
    by arith
  then show ?thesis
    unfolding sl_transaction_def using fail ents
    by (auto split: option.splits sum.splits prod.splits simp: Let_def)
qed

lemma store_data_present: "s_data sess = Some data \<Longrightarrow> store_data sess data' = sess\<lparr>s_data := Some data'\<rparr>"
  by (simp add: store_data_def)

text \<open>
  Claim C7, as the code has it. When the database fails at one of the calls of the
  transaction of the terminal step (the connection, the read of a leg, the insert, the
  update or the commit) for a session at the step \<open>sl\<close> whose text parses as the number
  \<open>sl\<close>: the only reply is the generic \<open>Error saving.\<close> and no exception escapes; the two
  tables are as they were, so the failed call was not tried again (a second try would have
  got through, only one call fails); of the sequences at most that of the trades has moved,
  by one; the step of the session is still \<open>sl\<close>, and its data are unchanged except that the
  field \<open>sl\<close> now holds the parsed number, which was stored before the database was touched.
\<close>

theorem sl_step_db_failure:
  assumes sess: "us chat_id = Some sess" "s_step sess = Some Step_sl" "s_data sess = Some data"
    and ents: "entry_targets data = Some entries"
    and parse: "float_of e (clean_text message_text) = Some sl"
    and fail: "fail_at e = Some n" "n \<le> length entries + 3"
  shows "replies (message_handler e us d chat_id message_text) = [Text ''Error saving.'']
     \<and> raised (message_handler e us d chat_id message_text) = None
     \<and> calcbalances (database (message_handler e us d chat_id message_text)) = calcbalances d
     \<and> balances (database (message_handler e us d chat_id message_text)) = balances d
     \<and> bal_seq (database (message_handler e us d chat_id message_text)) = bal_seq d
     \<and> calc_seq (database (message_handler e us d chat_id message_text))
           \<in> {calc_seq d, calc_seq d + 1}
     \<and> states (message_handler e us d chat_id message_text)
         = us(chat_id \<mapsto> sess\<lparr>s_data := Some (data\<lparr>d_sl := Some sl\<rparr>)\<rparr>)"
proof -
  have "entry_targets (data\<lparr>d_sl := Some sl\<rparr>) = Some entries" using ents by simp
  from sl_transaction_db_failure [OF fail(1) this fail(2)]
  obtain ex d0 where tx: "sl_transaction e d chat_id (data\<lparr>d_sl := Some sl\<rparr>) = Inl (ex, d0)"
    by blast
  from sl_transaction_raises [OF tx] have "d0 = d \<or> d0 = d\<lparr>calc_seq := calc_seq d + 1\<rparr>" .
  then have d0: "calcbalances d0 = calcbalances d" "balances d0 = balances d"
    "bal_seq d0 = bal_seq d" "calc_seq d0 \<in> {calc_seq d, calc_seq d + 1}"
    by auto
  have out: "message_handler e us d chat_id message_text
      = \<lparr>states = us(chat_id \<mapsto> sess\<lparr>s_data := Some (data\<lparr>d_sl := Some sl\<rparr>)\<rparr>),
         database = d0, replies = [Text ''Error saving.''], raised = None\<rparr>"
    unfolding message_handler_def sl_step_def
    by (simp add: sess parse Let_def store_data_present tx)
  show ?thesis
    unfolding out using d0 by simp
qed

lemma env_fail_fields:
  "fail_at (env_ok\<lparr>fail_at := Some n\<rparr>) = Some n"
  "float_of (env_ok\<lparr>fail_at := Some n\<rparr>) = decimal_literal"
  "today (env_ok\<lparr>fail_at := Some n\<rparr>) = 739000"
  by (simp_all add: env_ok_def)

theorem sl_step_db_failure_witness:
  "replies (message_handler (env_ok\<lparr>fail_at := Some 5\<rparr>) [7 \<mapsto> sess_sl] db_day 7 ''1.08'')
     = [Text ''Error saving.'']
   \<and> balances (database
        (message_handler (env_ok\<lparr>fail_at := Some 5\<rparr>) [7 \<mapsto> sess_sl] db_day 7 ''1.08''))
     = balances db_day
   \<and> calcbalances (database
        (message_handler (env_ok\<lparr>fail_at := Some 5\<rparr>) [7 \<mapsto> sess_sl] db_day 7 ''1.08''))
     = []
   \<and> states (message_handler (env_ok\<lparr>fail_at := Some 5\<rparr>) [7 \<mapsto> sess_sl] db_day 7 ''1.08'') 7
     = Some \<lparr>s_step = Some Step_sl,
             s_data = Some (data_two_legs\<lparr>d_sl := Some (27 / 25)\<rparr>),
             s_day = None, weekly_map = None\<rparr>"
proof -
  have "(5::nat) \<le> length [11 / 10, 111 / 100 :: rat] + 3" by simp
  from sl_step_db_failure [of "[7 \<mapsto> sess_sl]" 7 sess_sl data_two_legs
      "[11 / 10, 111 / 100]" "env_ok\<lparr>fail_at := Some 5\<rparr>" "''1.08''" "27 / 25" 5 db_day,
      OF _ sess_sl_fields data_two_legs_fields(1) _ env_fail_fields(1) this]
  show ?thesis
    by (simp add: env_fail_fields parse_stop db_day_fields) (simp add: sess_sl_def)
qed

text \<open>The claim as stated fails twice. After a failure of the connection the data of the
  session are not what they were: the stop loss has been stored. And when the database
  fails at the connection that \<open>start\<close> opens after the commit (call 6 for two legs), the
  reply \<open>Error saving.\<close> follows \<open>Saved\<close> and the menu, the trade is in the database and
  the session has been reset.\<close>

theorem sl_step_db_failure_counterexample:
  "replies (message_handler (env_ok\<lparr>fail_at := Some 0\<rparr>) [7 \<mapsto> sess_sl] db_day 7 ''1.08'')
     = [Text ''Error saving.'']
   \<and> map_option s_data
        (states (message_handler (env_ok\<lparr>fail_at := Some 0\<rparr>) [7 \<mapsto> sess_sl] db_day 7 ''1.08'') 7)
     = Some (Some (data_two_legs\<lparr>d_sl := Some (27 / 25)\<rparr>))
   \<and> map_option s_data ([7 \<mapsto> sess_sl] (7::int)) = Some (Some data_two_legs)
   \<and> data_two_legs\<lparr>d_sl := Some (27 / 25)\<rparr> \<noteq> data_two_legs
   \<and> replies (message_handler (env_ok\<lparr>fail_at := Some 6\<rparr>) [7 \<mapsto> sess_sl] db_day 7 ''1.08'')
     = [Saved 3 1003, Text ''Please select one of the options below:'', Text ''Error saving.'']
   \<and> database (message_handler (env_ok\<lparr>fail_at := Some 6\<rparr>) [7 \<mapsto> sess_sl] db_day 7 ''1.08'')
     = db_short
   \<and> states (message_handler (env_ok\<lparr>fail_at := Some 6\<rparr>) [7 \<mapsto> sess_sl] db_day 7 ''1.08'') 7
     = Some empty_session"
  by code_simp

section \<open>Input that is not a number\<close>

lemma store_data_same:
  "store_data sess (case s_data sess of None \<Rightarrow> empty_data | Some x \<Rightarrow> x) = sess"
  by (simp add: store_data_def split: option.splits)

text \<open>At each of the seven numeric steps a text that \<open>float\<close> rejects leaves the sessions
  and the database as they were. Six steps answer \<open>Enter a number.\<close>; the step \<open>sl\<close>, whose
  single \<open>try\<close> holds both the conversion and the transaction, answers \<open>Error saving.\<close>\<close>

lemma numeric_parse_failure_keeps_state:
  assumes sess: "us chat_id = Some sess" "s_step sess = Some st"
    and st: "st \<in> {Step_balance, Step_lots, Step_entry1, Step_entry2, Step_tp1, Step_tp2, Step_sl}"
    and parse: "float_of e (clean_text message_text) = None"
  shows "states (message_handler e us d chat_id message_text) = us
     \<and> database (message_handler e us d chat_id message_text) = d
     \<and> raised (message_handler e us d chat_id message_text) = None
     \<and> replies (message_handler e us d chat_id message_text)
         = [Text (if st = Step_sl then ''Error saving.'' else ''Enter a number.'')]"
proof -
  have same: "us(chat_id \<mapsto> sess) = us" using sess(1) by (simp add: fun_upd_idem)
  from st consider "st = Step_sl" | "st = Step_balance" | "st = Step_lots" | "st = Step_entry1"
    | "st = Step_entry2" | "st = Step_tp1" | "st = Step_tp2"
    by auto
  then show ?thesis
  proof cases
    case 1
    then show ?thesis
      by (simp add: message_handler_def sl_step_def sess parse)
  next
    case 2
    then show ?thesis
      by (simp add: message_handler_def flow_branch_def sess parse store_data_same same)
  next
    case 3
    then show ?thesis
      by (simp add: message_handler_def flow_branch_def sess parse store_data_same same)
  next
    case 4
    then show ?thesis
      by (simp add: message_handler_def flow_branch_def sess parse store_data_same same)
  next
    case 5
    then show ?thesis
      by (cases "entry_targets (case s_data sess of None \<Rightarrow> empty_data | Some x \<Rightarrow> x)")
         (simp_all add: message_handler_def flow_branch_def sess parse store_data_same same)
  next
    case 6
    then show ?thesis
      by (simp add: message_handler_def flow_branch_def sess parse store_data_same same)
  next
    case 7
    then show ?thesis
      by (cases "tp_targets (case s_data sess of None \<Rightarrow> empty_data | Some x \<Rightarrow> x)")
         (simp_all add: message_handler_def flow_branch_def sess parse store_data_same same)
  qed
qed


text \<open>
  Claim C3, evaluated. The text \<open>abc\<close> is not a number. At the step \<open>sl\<close> it leaves the
  session as it was, but the reply is the failure message of the transaction,
  \<open>Error saving.\<close>, neither the request for a number that the other numeric steps send
  nor the prompt of the step; at the step \<open>lots\<close> of the same session the reply is
  \<open>Enter a number.\<close>
\<close>

theorem parse_failure_at_sl:
  "decimal_literal (clean_text ''abc'') = None
   \<and> replies (message_handler env_ok [7 \<mapsto> sess_sl] db_day 7 ''abc'') = [Text ''Error saving.'']
   \<and> states (message_handler env_ok [7 \<mapsto> sess_sl] db_day 7 ''abc'') 7 = Some sess_sl
   \<and> prompt_map Step_sl = Some ''Stop Loss:''
   \<and> replies (message_handler env_ok [7 \<mapsto> sess_sl\<lparr>s_step := Some Step_lots\<rparr>] db_day 7 ''abc'')
       = [Text ''Enter a number.'']"
  by code_simp

section \<open>Properties of deletion\<close>

lemma array_remove_absent: "\<not> any_forids tid a \<Longrightarrow> array_remove a tid = a"
  by (cases a) (simp_all add: array_remove_def any_forids_def)

lemma any_forids_removed: "\<not> any_forids tid (array_remove a tid)"
  by (cases a) (simp_all add: array_remove_def any_forids_def)

lemma database_then_start: "database (then_start e us d chat_id msg) = d"
  by (simp add: then_start_def split: prod.splits)

text \<open>
  Claim C8. Deleting the trade id \<open>tid\<close> leaves in \<open>calcbalances\<close> exactly the trades with
  another id, so no later query finds a trade with the id \<open>tid\<close>; every row of \<open>balances\<close>
  keeps its place and all its fields except the link list, from which every occurrence of
  \<open>tid\<close> is removed; a row whose link list did not contain \<open>tid\<close> is unchanged altogether;
  afterwards no link list contains \<open>tid\<close>; and the sequences are untouched.
\<close>

theorem delete_exec_frame:
  "calcbalances (database (delete_exec e us d chat_id tid))
       = filter (\<lambda>t. t_id t \<noteq> tid) (calcbalances d)
   \<and> (\<forall>calc_ids. \<forall>t \<in> set (select_calcs (database (delete_exec e us d chat_id tid)) calc_ids).
         t_id t \<noteq> tid)
   \<and> balances (database (delete_exec e us d chat_id tid))
       = map (\<lambda>r. r\<lparr>forIds := array_remove (forIds r) tid\<rparr>) (balances d)
   \<and> (\<forall>r \<in> set (balances d).
         \<not> any_forids tid (forIds r) \<longrightarrow> r\<lparr>forIds := array_remove (forIds r) tid\<rparr> = r)
   \<and> (\<forall>r \<in> set (balances (database (delete_exec e us d chat_id tid))).
         \<not> any_forids tid (forIds r))
   \<and> calc_seq (database (delete_exec e us d chat_id tid)) = calc_seq d
   \<and> bal_seq (database (delete_exec e us d chat_id tid)) = bal_seq d"
proof -
  have row: "(if any_forids tid (forIds r) then r\<lparr>forIds := array_remove (forIds r) tid\<rparr> else r)
      = r\<lparr>forIds := array_remove (forIds r) tid\<rparr>" for r :: balance_row
    by (simp add: array_remove_absent)
  show ?thesis
    by (simp add: delete_exec_def database_then_start unlink_calc_def delete_calc_def
        select_calcs_def row array_remove_absent any_forids_removed)
qed


theorem delete_exec_frame_witness:
  "balances (database (delete_exec env_ok Map.empty
       \<lparr>calcbalances = [],
        balances = [\<lparr>b_id = 1, forIds = Some [1, 2], balance = 996, b_day = 739000, userid = 7\<rparr>,
                    \<lparr>b_id = 2, forIds = None, balance = 50, b_day = 739001, userid = 7\<rparr>,
                    \<lparr>b_id = 3, forIds = Some [3], balance = 10, b_day = 739000, userid = 8\<rparr>],
        calc_seq = 4, bal_seq = 4\<rparr> 7 2))
     = [\<lparr>b_id = 1, forIds = Some [1], balance = 996, b_day = 739000, userid = 7\<rparr>,
        \<lparr>b_id = 2, forIds = None, balance = 50, b_day = 739001, userid = 7\<rparr>,
        \<lparr>b_id = 3, forIds = Some [3], balance = 10, b_day = 739000, userid = 8\<rparr>]
   \<and> \<not> any_forids 2 (Some [3])
   \<and> \<lparr>b_id = 3, forIds = Some [3], balance = 10, b_day = 739000, userid = 8\<rparr>
        \<in> set [\<lparr>b_id = 1, forIds = Some [1, 2], balance = 996, b_day = 739000, userid = 7\<rparr>,
                \<lparr>b_id = 2, forIds = None, balance = 50, b_day = 739001, userid = 7\<rparr>,
                \<lparr>b_id = 3, forIds = Some [3], balance = 10, b_day = 739000, userid = 8\<rparr>]"
  using delete_exec_frame [of env_ok Map.empty
       "\<lparr>calcbalances = [],
        balances = [\<lparr>b_id = 1, forIds = Some [1, 2], balance = 996, b_day = 739000, userid = 7\<rparr>,
                    \<lparr>b_id = 2, forIds = None, balance = 50, b_day = 739001, userid = 7\<rparr>,
                    \<lparr>b_id = 3, forIds = Some [3], balance = 10, b_day = 739000, userid = 8\<rparr>],
        calc_seq = 4, bal_seq = 4\<rparr>" 7 2]
  by (simp add: array_remove_def any_forids_def)

section \<open>Selection tokens after a reset\<close>

lemma resolve_after_reset:
  assumes "us' chat_id = None \<or> (\<exists>sess. us' chat_id = Some sess \<and> weekly_map sess = None)"
  shows "fst (resolve_token us' chat_id unique_key) = None"
  using assms
  by (auto simp: resolve_token_def get_state_def empty_session_def split: option.splits)

lemma weekly_chosen_not_found:
  assumes "fst (resolve_token us' chat_id unique_key) = None"
  shows "weekly_chosen e us' d chat_id unique_key
     = then_start e (snd (resolve_token us' chat_id unique_key)) d chat_id
         (Text ''Information expired. Please try again.'')"
  using assms by (cases "resolve_token us' chat_id unique_key") (simp add: weekly_chosen_def)

lemma then_start_fields:
  "database (then_start e us d chat_id msg) = d"
  "raised (then_start e us d chat_id msg) = None"
  "replies (then_start e us d chat_id msg) = msg # snd (start e us chat_id)"
  by (simp_all add: then_start_def split: prod.splits)

lemma flow_branch_replies:
  "flow_branch e d chat_id st data text = Return data' d' msgs ex \<Longrightarrow>
     msgs = [] \<or> (\<exists>s. msgs = [Text s])"
  by (cases st) (auto simp: flow_branch_def Let_def split: option.splits if_splits)

lemma start_resets:
  "us chat_id = None \<Longrightarrow>
     fst (start e us chat_id) chat_id = None
     \<or> fst (start e us chat_id) chat_id = Some empty_session"
  by (simp add: start_def)

lemma message_handler_saved:
  assumes "replies (message_handler e us d chat_id m) = Saved p b # rest"
  shows "states (message_handler e us d chat_id m) chat_id = None
     \<or> states (message_handler e us d chat_id m) chat_id = Some empty_session"
proof (cases "us chat_id")
  case None
  with assms show ?thesis by (simp add: message_handler_def)
next
  case (Some sess)
  show ?thesis
  proof (cases "s_step sess")
    case None
    with Some assms show ?thesis by (simp add: message_handler_def)
  next
    case (Some st)
    note st = this
    consider "st = Step_edit_val" | "st = Step_sl" | "st \<noteq> Step_edit_val" "st \<noteq> Step_sl" by blast
    then show ?thesis
    proof cases
      case 1
      with assms \<open>us chat_id = Some sess\<close> st show ?thesis
        by (auto simp: message_handler_def edit_val_step_def Let_def start_call_def start_def
            split: option.splits if_splits prod.splits)
    next
      case 2
      with assms \<open>us chat_id = Some sess\<close> st show ?thesis
        by (auto simp: message_handler_def sl_step_def Let_def start_call_def start_def
            split: option.splits if_splits prod.splits sum.splits)
    next
      case 3
      with assms \<open>us chat_id = Some sess\<close> st show ?thesis
        by (auto simp: message_handler_def Let_def dest: flow_branch_replies
            split: option.splits branch.splits)
    qed
  qed
qed

text \<open>
  Claim C6. Let \<open>us'\<close> be the sessions after the session of a user was reset or replaced:
  by the close button, by starting a new report, or by the message that completed a trade
  (the one answered with \<open>Saved\<close>). Then whatever tokens the session held before, every
  token resolves to nothing, and \<open>weekly_chosen\<close> with it answers
  \<open>Information expired. Please try again.\<close> followed by the main menu, raises nothing,
  reports no figures and leaves the database alone.
\<close>

theorem stale_token_not_found:
  assumes "us' = states (close_handler us d0 chat_id)
     \<or> us' = states (new_report us d0 chat_id)
     \<or> (\<exists>e0 m p b rest. replies (message_handler e0 us d0 chat_id m) = Saved p b # rest
            \<and> us' = states (message_handler e0 us d0 chat_id m))"
  shows "fst (resolve_token us' chat_id unique_key) = None
     \<and> replies (weekly_chosen e us' d chat_id unique_key)
         = Text ''Information expired. Please try again.''
           # snd (start e (snd (resolve_token us' chat_id unique_key)) chat_id)
     \<and> raised (weekly_chosen e us' d chat_id unique_key) = None
     \<and> database (weekly_chosen e us' d chat_id unique_key) = d"
proof -
  have "us' chat_id = None \<or> (\<exists>sess. us' chat_id = Some sess \<and> weekly_map sess = None)"
    using assms
  proof (elim disjE exE conjE)
    assume "us' = states (close_handler us d0 chat_id)"
    then show ?thesis by (simp add: close_handler_def)
  next
    assume "us' = states (new_report us d0 chat_id)"
    then show ?thesis by (simp add: new_report_def)
  next
    fix e0 m p b rest
    assume "replies (message_handler e0 us d0 chat_id m) = Saved p b # rest"
      and us': "us' = states (message_handler e0 us d0 chat_id m)"
    from message_handler_saved [OF this(1)] us' show ?thesis
      by (auto simp: empty_session_def)
  qed
  then have none: "fst (resolve_token us' chat_id unique_key) = None"
    by (rule resolve_after_reset)
  show ?thesis
    by (simp add: none weekly_chosen_not_found then_start_fields)
qed

lemma token_before_reset:
  "fst (resolve_token [7 \<mapsto> sess_sl\<lparr>weekly_map := Some [(''a'', [1])]\<rparr>] 7 ''a'') = Some [1]"
  by (simp add: resolve_token_def get_state_def)

lemma completing_message:
  "replies (message_handler env_ok [7 \<mapsto> sess_sl\<lparr>weekly_map := Some [(''a'', [1])]\<rparr>]
       db_day 7 ''1.08'')
     = [Saved 3 1003, Text ''Please select one of the options below:'']"
  by code_simp

theorem stale_token_not_found_witness:
  "fst (resolve_token [7 \<mapsto> sess_sl\<lparr>weekly_map := Some [(''a'', [1])]\<rparr>] 7 ''a'') = Some [1]
   \<and> fst (resolve_token
         (states (close_handler [7 \<mapsto> sess_sl\<lparr>weekly_map := Some [(''a'', [1])]\<rparr>] db_day 7))
         7 ''a'') = None
   \<and> replies (message_handler env_ok [7 \<mapsto> sess_sl\<lparr>weekly_map := Some [(''a'', [1])]\<rparr>]
         db_day 7 ''1.08'')
       = [Saved 3 1003, Text ''Please select one of the options below:'']
   \<and> fst (resolve_token
         (states (message_handler env_ok [7 \<mapsto> sess_sl\<lparr>weekly_map := Some [(''a'', [1])]\<rparr>]
            db_day 7 ''1.08''))
         7 ''a'') = None"
proof -
  let ?us = "[7 \<mapsto> sess_sl\<lparr>weekly_map := Some [(''a'', [1])]\<rparr>]"
  have closed: "fst (resolve_token (states (close_handler ?us db_day 7)) 7 ''a'') = None"
    using stale_token_not_found [of "states (close_handler ?us db_day 7)" ?us db_day 7 "''a''"]
    by blast
  have "\<exists>e0 m p b rest. replies (message_handler e0 ?us db_day 7 m) = Saved p b # rest
      \<and> states (message_handler env_ok ?us db_day 7 ''1.08'') = states (message_handler e0 ?us db_day 7 m)"
    using completing_message by blast
  then have completed:
    "fst (resolve_token (states (message_handler env_ok ?us db_day 7 ''1.08'')) 7 ''a'') = None"
    using stale_token_not_found [of "states (message_handler env_ok ?us db_day 7 ''1.08'')"
        ?us db_day 7 "''a''"]
    by blast
  show ?thesis
    using token_before_reset closed completing_message completed by simp
qed


section \<open>The flow from end to end\<close>

lemma find_append_none: "find P xs = None \<Longrightarrow> find P (xs @ ys) = find P ys"
  by (induction xs) (auto split: if_splits)

lemma select_today_insert:
  "select_today d day uid = None \<Longrightarrow>
   select_today (insert_balance d bal day uid) day uid
     = Some \<lparr>b_id = bal_seq d, forIds = None, balance = bal, b_day = day, userid = uid\<rparr>"
  by (simp add: select_today_def insert_balance_def find_append_none)

lemma flow_texts:
  "clean_text ''EURUSD'' = ''EURUSD''" "clean_text ''1000'' = ''1000''" "clean_text ''1'' = ''1''"
  "clean_text ''long'' = ''long''" "clean_text ''1.10'' = ''1.10''" "clean_text ''no'' = ''no''"
  "clean_text ''1.12'' = ''1.12''" "clean_text ''1.08'' = ''1.08''"
  "lower ''long'' = ''long''" "lower ''no'' = ''no''" "''no'' \<notin> set yes_words"
  by code_simp+

lemma one_leg_value: "calculate_pnl_value (11 / 10) (28 / 25) 1 ''long'' = 2"
  by code_simp

lemma before_sl:
  assumes norow: "select_today d (today e) chat_id = None" and nofail: "fail_at e = None"
    and parses: "float_of e ''1000'' = Some 1000" "float_of e ''1'' = Some 1"
      "float_of e ''1.10'' = Some (11 / 10)" "float_of e ''1.12'' = Some (28 / 25)"
  shows "feed e chat_id [''EURUSD'', ''1000'', ''1'', ''long'', ''1.10'', ''no'', ''1.12'', ''no'']
           (new_report us d chat_id)
     = \<lparr>states = us(chat_id \<mapsto> \<lparr>s_step = Some Step_sl,
            s_data = Some \<lparr>d_currency = Some ''EURUSD'', d_balance = Some 1000, d_lots = Some 1,
               d_type = Some ''long'', entry_targets = Some [11 / 10],
               tp_targets = Some [28 / 25], d_sl = None\<rparr>,
            s_day = None, weekly_map = None\<rparr>),
         database = insert_balance d 1000 (today e) chat_id,
         replies = [Text ''Stop Loss:''], raised = None\<rparr>"
  by (simp add: new_report_def message_handler_def flow_branch_def store_data_def
      fails_within_def empty_data_def flow_texts norow nofail parses)

lemma feed_append: "feed e chat_id (ms @ [m]) out
    = message_handler e (states (feed e chat_id ms out)) (database (feed e chat_id ms out)) chat_id m"
  by (induction ms arbitrary: out) simp_all

text \<open>
  Claim C5, as the code has it. A user without a row for today starts a new report and
  sends \<open>EURUSD\<close>, \<open>1000\<close>, \<open>1\<close>, \<open>long\<close>, \<open>1.10\<close>, \<open>no\<close>, \<open>1.12\<close>, \<open>no\<close>, \<open>1.08\<close>,
  the database does not fail and \<open>float\<close> reads the five numbers as written. Then one
  trade is added, with entries \<open>[1.10]\<close>, targets \<open>[1.12]\<close>, per-leg PnL \<open>[2.00]\<close> (the
  product \<open>0.02 * 1 * 100\<close>) and the gain of 0.2 percent; today's row of the user is the
  new one, linked to the trade, with balance \<open>1002.00\<close>; and the reply reports the PnL 2
  and the balance 1002.
\<close>

theorem end_to_end_trade:
  assumes norow: "select_today d (today e) chat_id = None" and nofail: "fail_at e = None"
    and parses: "float_of e ''1000'' = Some 1000" "float_of e ''1'' = Some 1"
      "float_of e ''1.10'' = Some (11 / 10)" "float_of e ''1.12'' = Some (28 / 25)"
      "float_of e ''1.08'' = Some (27 / 25)"
  shows "calcbalances (database (feed e chat_id
            [''EURUSD'', ''1000'', ''1'', ''long'', ''1.10'', ''no'', ''1.12'', ''no'', ''1.08'']
            (new_report us d chat_id)))
       = calcbalances d @
           [\<lparr>t_id = calc_seq d, t_day = today e, t_currency = ''EURUSD'', t_lots = 1,
             t_losses = [], t_gains = [1 / 5], t_entrytarget = [11 / 10],
             t_takeprofittarget = [28 / 25], t_stoploss = 27 / 25, t_type = ''long'',
             t_totalbalance = [2]\<rparr>]
     \<and> select_today (database (feed e chat_id
            [''EURUSD'', ''1000'', ''1'', ''long'', ''1.10'', ''no'', ''1.12'', ''no'', ''1.08'']
            (new_report us d chat_id))) (today e) chat_id
       = Some \<lparr>b_id = bal_seq d, forIds = Some [calc_seq d], balance = 1002,
                b_day = today e, userid = chat_id\<rparr>
     \<and> (\<exists>rest. replies (feed e chat_id
            [''EURUSD'', ''1000'', ''1'', ''long'', ''1.10'', ''no'', ''1.12'', ''no'', ''1.08'']
            (new_report us d chat_id)) = Saved 2 1002 # rest)"
proof -
  let ?data = "\<lparr>d_currency = Some ''EURUSD'', d_balance = Some 1000, d_lots = Some 1,
               d_type = Some ''long'', entry_targets = Some [11 / 10],
               tp_targets = Some [28 / 25], d_sl = Some (27 / 25)\<rparr>"
  let ?d1 = "insert_balance d 1000 (today e) chat_id"
  let ?row = "\<lparr>b_id = bal_seq d, forIds = None, balance = 1000, b_day = today e, userid = chat_id\<rparr>"
  have row: "select_today ?d1 (today e) chat_id = Some ?row"
    by (rule select_today_insert [OF norow])
  have tx: "sl_transaction e ?d1 chat_id ?data =
     Inr (let base = balance ?row;
              pnls = map (\<lambda>i. calculate_pnl_value ([11 / 10] ! i)
                              (if i < length [28 / 25 :: rat] then [28 / 25] ! i else last [28 / 25])
                              1 ''long'')
                       [0..<length [11 / 10 :: rat]]
          in (?d1\<lparr>calcbalances := calcbalances ?d1 @
                  [\<lparr>t_id = calc_seq ?d1, t_day = today e, t_currency = ''EURUSD'', t_lots = 1,
                    t_losses = map (calculate_balance_percent base) (filter (\<lambda>v. \<not> v \<ge> 0) pnls),
                    t_gains = map (calculate_balance_percent base) (filter (\<lambda>v. v \<ge> 0) pnls),
                    t_entrytarget = [11 / 10], t_takeprofittarget = [28 / 25],
                    t_stoploss = 27 / 25, t_type = ''long'', t_totalbalance = pnls\<rparr>],
                calc_seq := calc_seq ?d1 + 1,
                balances := map (\<lambda>r. if b_id r = b_id ?row
                                      then r\<lparr>balance := base + sum_list pnls,
                                             forIds := array_append (forIds r) (calc_seq ?d1)\<rparr>
                                      else r) (balances ?d1)\<rparr>,
              sum_list pnls, base + sum_list pnls))"
    by (rule sl_transaction_success [OF row nofail]) simp_all
  have tx': "sl_transaction e ?d1 chat_id ?data =
     Inr (?d1\<lparr>calcbalances := calcbalances d @
                  [\<lparr>t_id = calc_seq d, t_day = today e, t_currency = ''EURUSD'', t_lots = 1,
                    t_losses = [], t_gains = [1 / 5],
                    t_entrytarget = [11 / 10], t_takeprofittarget = [28 / 25],
                    t_stoploss = 27 / 25, t_type = ''long'', t_totalbalance = [2]\<rparr>],
                calc_seq := calc_seq d + 1,
                balances := map (\<lambda>r. if b_id r = bal_seq d
                                      then r\<lparr>balance := 1002,
                                             forIds := array_append (forIds r) (calc_seq d)\<rparr>
                                      else r) (balances ?d1)\<rparr>,
              2, 1002)"
    unfolding tx
    by (simp add: Let_def one_leg_value calculate_balance_percent_def insert_balance_def)
  have split: "[''EURUSD'', ''1000'', ''1'', ''long'', ''1.10'', ''no'', ''1.12'', ''no'', ''1.08'']
      = [''EURUSD'', ''1000'', ''1'', ''long'', ''1.10'', ''no'', ''1.12'', ''no''] @ [''1.08'']"
    by simp
  show ?thesis
    unfolding split feed_append before_sl [OF norow nofail parses(1-4)]
    by (simp add: message_handler_def sl_step_def store_data_def flow_texts parses tx'
        select_today_after_link row array_append_def start_call_def nofail split: prod.splits)
qed


lemma example_parses:
  "decimal_literal ''1000'' = Some 1000" "decimal_literal ''1'' = Some 1"
  "decimal_literal ''1.10'' = Some (11 / 10)" "decimal_literal ''1.12'' = Some (28 / 25)"
  "decimal_literal ''1.08'' = Some (27 / 25)"
  by code_simp+

theorem end_to_end_trade_witness:
  "select_today db_empty (today env_ok) 7 = None
   \<and> map t_totalbalance (calcbalances (database (feed env_ok 7
          [''EURUSD'', ''1000'', ''1'', ''long'', ''1.10'', ''no'', ''1.12'', ''no'', ''1.08'']
          (new_report Map.empty db_empty 7)))) = [[2]]
   \<and> map_option balance (select_today (database (feed env_ok 7
          [''EURUSD'', ''1000'', ''1'', ''long'', ''1.10'', ''no'', ''1.12'', ''no'', ''1.08'']
          (new_report Map.empty db_empty 7))) (today env_ok) 7) = Some 1002"
proof -
  have norow: "select_today db_empty (today env_ok) 7 = None"
    by (simp add: select_today_def db_empty_def)
  have parses: "float_of env_ok ''1000'' = Some 1000" "float_of env_ok ''1'' = Some 1"
    "float_of env_ok ''1.10'' = Some (11 / 10)" "float_of env_ok ''1.12'' = Some (28 / 25)"
    "float_of env_ok ''1.08'' = Some (27 / 25)"
    by (simp_all add: env_ok_fields example_parses)
  have empty: "calcbalances db_empty = []" by (simp add: db_empty_def)
  from end_to_end_trade [of db_empty env_ok 7, OF norow env_ok_fields(1) parses, of Map.empty]
  show ?thesis
    by (simp add: norow empty del: feed.simps)
qed

text \<open>The claim as stated fails: the per-leg PnL of the trade is \<open>[2]\<close>, not \<open>[200]\<close>.\<close>

theorem end_to_end_trade_counterexample:
  "map t_totalbalance (calcbalances (database (feed env_ok 7
      [''EURUSD'', ''1000'', ''1'', ''long'', ''1.10'', ''no'', ''1.12'', ''no'', ''1.08'']
      (new_report Map.empty db_empty 7)))) \<noteq> [[200]]
   \<and> map t_totalbalance (calcbalances (database (feed env_ok 7
      [''EURUSD'', ''1000'', ''1'', ''long'', ''1.10'', ''no'', ''1.12'', ''no'', ''1.08'']
      (new_report Map.empty db_empty 7)))) = [[2]]
   \<and> map balance (balances (database (feed env_ok 7
      [''EURUSD'', ''1000'', ''1'', ''long'', ''1.10'', ''no'', ''1.12'', ''no'', ''1.08'']
      (new_report Map.empty db_empty 7)))) = [1002]"
  by code_simp

section \<open>The reports on a trade with fewer targets than entries\<close>

lemma example_flow:
  "states (feed env_ok 7
       [''EURUSD'', ''1000'', ''1'', ''Long'', ''1.10'', ''yes'', ''1.11'', ''1.12'', ''no'']
       (new_report Map.empty db_empty 7)) 7 = Some sess_sl
   \<and> database (feed env_ok 7
       [''EURUSD'', ''1000'', ''1'', ''Long'', ''1.10'', ''yes'', ''1.11'', ''1.12'', ''no'']
       (new_report Map.empty db_empty 7)) = db_day"
  by code_simp

lemma example_saved:
  "database (message_handler env_ok [7 \<mapsto> sess_sl] db_day 7 ''1.08'') = db_short"
  by code_simp

text \<open>
  Claim C2, evaluated. The trade of \<open>db_short\<close> has the entries \<open>[1.10, 1.11]\<close> and the single
  target \<open>[1.12]\<close>, long, one lot; the terminal step stored its per-leg PnL as \<open>[2, 1]\<close>,
  pairing the second entry with the last target. The three views pair the second entry with
  the target 0 instead: its leg is \<open>(0 - 1.11) * 100 = -111\<close>, so the week and the month
  report the profit 2 and the loss 111, and the day view the legs \<open>[2, -111]\<close>, where the
  last target would give the profit 3 and no loss.
\<close>

theorem views_short_targets:
  "map t_totalbalance (calcbalances db_short) = [[2, 1]]
   \<and> map view_pnls (calcbalances db_short) = [[2, - 111]]
   \<and> replies (weekly_chosen env_ok
         [7 \<mapsto> \<lparr>s_step = None, s_data = None, s_day = None, weekly_map = Some [(''a'', [1])]\<rparr>]
         db_short 7 ''a'')
       = [Weekly_report 1 2 111, Text ''Please select one of the options below:'']
   \<and> replies (monthly_chosen env_ok Map.empty db_short 7 4)
       = [Monthly_report 4 2 111, Text ''Please select one of the options below:'']
   \<and> replies (daily_chosen env_ok Map.empty db_short 7 1)
       = [Daily_report \<lparr>ds_day = 739000, ds_count = 1, ds_rows = [(1, [2, - 111])],
            ds_total_profit = 2, ds_total_loss = 111, ds_gains_pct = 3 / 10,
            ds_losses_pct = 0, ds_final_balance = 1003\<rparr>,
          Text ''Please select one of the options below:'']"
  by code_simp

section \<open>The percent sign in a message\<close>

lemma percent_not_in_clean_text: "CHR ''%'' \<notin> set (clean_text t)"
  by (simp add: clean_text_def)

lemma clean_fifty: "clean_text ''50%'' = ''50''"
  by code_simp

lemma handler_uses_clean_text:
  "clean_text t = clean_text t' \<Longrightarrow>
     message_handler e us d chat_id t = message_handler e us d chat_id t'"
  by (simp add: message_handler_def)

text \<open>
  Claim C10. The handler strips the white space around the text of a message and removes
  every \<open>%\<close> before it looks at the step, so the text that any step sees has no \<open>%\<close>, and
  two messages with the same cleaned text are handled alike. For a session with data, an
  environment where \<open>float\<close> reads \<open>50\<close> as 50 and a database that does not fail: the
  currency step stores the cleaned text as the currency; the message \<open>50%\<close> is taken as
  the number 50 by each numeric step, which stores it and moves on (balance, lots, entry1,
  entry2, tp1, tp2), and by the terminal step, which saves the trade with the stop loss 50.
\<close>

theorem percent_stripped:
  assumes sess: "us chat_id = Some sess" "s_data sess = Some data"
    and fifty: "float_of e ''50'' = Some 50" and nofail: "fail_at e = None"
  shows "CHR ''%'' \<notin> set (clean_text t)
   \<and> (\<forall>t'. clean_text t' = clean_text t \<longrightarrow>
         message_handler e us d chat_id t' = message_handler e us d chat_id t)
   \<and> clean_text ''50%'' = ''50''
   \<and> (s_step sess = Some Step_currency \<longrightarrow>
        states (message_handler e us d chat_id t) =
           us(chat_id \<mapsto> sess\<lparr>s_data := Some (data\<lparr>d_currency := Some (clean_text t)\<rparr>),
                                 s_step := Some (if select_today d (today e) chat_id \<noteq> None
                                                 then Step_lots else Step_balance)\<rparr>))
   \<and> (s_step sess = Some Step_balance \<longrightarrow>
        states (message_handler e us d chat_id ''50%'') =
           us(chat_id \<mapsto> sess\<lparr>s_data := Some (data\<lparr>d_balance := Some 50\<rparr>),
                                 s_step := Some Step_lots\<rparr>)
        \<and> database (message_handler e us d chat_id ''50%'') = insert_balance d 50 (today e) chat_id)
   \<and> (s_step sess = Some Step_lots \<longrightarrow>
        states (message_handler e us d chat_id ''50%'') =
           us(chat_id \<mapsto> sess\<lparr>s_data := Some (data\<lparr>d_lots := Some 50\<rparr>),
                                 s_step := Some Step_type\<rparr>))
   \<and> (s_step sess = Some Step_entry1 \<longrightarrow>
        states (message_handler e us d chat_id ''50%'') =
           us(chat_id \<mapsto> sess\<lparr>s_data := Some (data\<lparr>entry_targets := Some [50]\<rparr>),
                                 s_step := Some Step_entry2_q\<rparr>))
   \<and> (\<forall>entries. s_step sess = Some Step_entry2 \<and> entry_targets data = Some entries \<longrightarrow>
        states (message_handler e us d chat_id ''50%'') =
           us(chat_id \<mapsto> sess\<lparr>s_data := Some (data\<lparr>entry_targets := Some (entries @ [50])\<rparr>),
                                 s_step := Some Step_tp1\<rparr>))
   \<and> (s_step sess = Some Step_tp1 \<longrightarrow>
        states (message_handler e us d chat_id ''50%'') =
           us(chat_id \<mapsto> sess\<lparr>s_data := Some (data\<lparr>tp_targets := Some [50]\<rparr>),
                                 s_step := Some Step_tp2_q\<rparr>))
   \<and> (\<forall>tps. s_step sess = Some Step_tp2 \<and> tp_targets data = Some tps \<longrightarrow>
        states (message_handler e us d chat_id ''50%'') =
           us(chat_id \<mapsto> sess\<lparr>s_data := Some (data\<lparr>tp_targets := Some (tps @ [50])\<rparr>),
                                 s_step := Some Step_sl\<rparr>))
   \<and> (\<forall>entries tps lots ttype cur brow.
        s_step sess = Some Step_sl \<and> entry_targets data = Some entries \<and> entries \<noteq> []
        \<and> tp_targets data = Some tps \<and> tps \<noteq> [] \<and> d_lots data = Some lots
        \<and> d_type data = Some ttype \<and> d_currency data = Some cur
        \<and> select_today d (today e) chat_id = Some brow \<longrightarrow>
        map t_stoploss (calcbalances (database (message_handler e us d chat_id ''50%'')))
          = map t_stoploss (calcbalances d) @ [50])"
proof -
  have parse: "float_of e (clean_text ''50%'') = Some 50"
    by (simp add: clean_fifty fifty)
  have nf: "\<not> fails_within e n" for n
    by (simp add: fails_within_def nofail)
  have cur: "s_step sess = Some Step_currency \<longrightarrow>
        states (message_handler e us d chat_id t) =
           us(chat_id \<mapsto> sess\<lparr>s_data := Some (data\<lparr>d_currency := Some (clean_text t)\<rparr>),
                                 s_step := Some (if select_today d (today e) chat_id \<noteq> None
                                                 then Step_lots else Step_balance)\<rparr>)"
    by (simp add: message_handler_def flow_branch_def sess nf store_data_def)
  have bal: "s_step sess = Some Step_balance \<longrightarrow>
        states (message_handler e us d chat_id ''50%'') =
           us(chat_id \<mapsto> sess\<lparr>s_data := Some (data\<lparr>d_balance := Some 50\<rparr>),
                                 s_step := Some Step_lots\<rparr>)
        \<and> database (message_handler e us d chat_id ''50%'') = insert_balance d 50 (today e) chat_id"
    by (simp add: message_handler_def flow_branch_def sess nf store_data_def parse)
  have lots: "s_step sess = Some Step_lots \<longrightarrow>
        states (message_handler e us d chat_id ''50%'') =
           us(chat_id \<mapsto> sess\<lparr>s_data := Some (data\<lparr>d_lots := Some 50\<rparr>),
                                 s_step := Some Step_type\<rparr>)"
    by (simp add: message_handler_def flow_branch_def sess store_data_def parse)
  have e1: "s_step sess = Some Step_entry1 \<longrightarrow>
        states (message_handler e us d chat_id ''50%'') =
           us(chat_id \<mapsto> sess\<lparr>s_data := Some (data\<lparr>entry_targets := Some [50]\<rparr>),
                                 s_step := Some Step_entry2_q\<rparr>)"
    by (simp add: message_handler_def flow_branch_def sess store_data_def parse)
  have e2: "\<forall>entries. s_step sess = Some Step_entry2 \<and> entry_targets data = Some entries \<longrightarrow>
        states (message_handler e us d chat_id ''50%'') =
           us(chat_id \<mapsto> sess\<lparr>s_data := Some (data\<lparr>entry_targets := Some (entries @ [50])\<rparr>),
                                 s_step := Some Step_tp1\<rparr>)"
    by (simp add: message_handler_def flow_branch_def sess store_data_def parse)
  have t1: "s_step sess = Some Step_tp1 \<longrightarrow>
        states (message_handler e us d chat_id ''50%'') =
           us(chat_id \<mapsto> sess\<lparr>s_data := Some (data\<lparr>tp_targets := Some [50]\<rparr>),
                                 s_step := Some Step_tp2_q\<rparr>)"
    by (simp add: message_handler_def flow_branch_def sess store_data_def parse)
  have t2: "\<forall>tps. s_step sess = Some Step_tp2 \<and> tp_targets data = Some tps \<longrightarrow>
        states (message_handler e us d chat_id ''50%'') =
           us(chat_id \<mapsto> sess\<lparr>s_data := Some (data\<lparr>tp_targets := Some (tps @ [50])\<rparr>),
                                 s_step := Some Step_sl\<rparr>)"
    by (simp add: message_handler_def flow_branch_def sess store_data_def parse)
  have sl: "\<forall>entries tps lots ttype cur brow.
        s_step sess = Some Step_sl \<and> entry_targets data = Some entries \<and> entries \<noteq> []
        \<and> tp_targets data = Some tps \<and> tps \<noteq> [] \<and> d_lots data = Some lots
        \<and> d_type data = Some ttype \<and> d_currency data = Some cur
        \<and> select_today d (today e) chat_id = Some brow \<longrightarrow>
        map t_stoploss (calcbalances (database (message_handler e us d chat_id ''50%'')))
          = map t_stoploss (calcbalances d) @ [50]"
  proof (intro allI impI, elim conjE)
    fix entries tps lots ttype cur brow
    assume st: "s_step sess = Some Step_sl"
      and fields: "entry_targets data = Some entries" "entries \<noteq> []" "tp_targets data = Some tps"
        "tps \<noteq> []" "d_lots data = Some lots" "d_type data = Some ttype" "d_currency data = Some cur"
      and row: "select_today d (today e) chat_id = Some brow"
    have "\<exists>d' p b. sl_transaction e d chat_id (data\<lparr>d_sl := Some 50\<rparr>) = Inr (d', p, b)
        \<and> map t_stoploss (calcbalances d') = map t_stoploss (calcbalances d) @ [50]"
      using sl_transaction_success [OF row nofail, of "data\<lparr>d_sl := Some 50\<rparr>" entries tps lots ttype cur 50]
        fields
      by (simp add: Let_def)
    then show "map t_stoploss (calcbalances (database (message_handler e us d chat_id ''50%'')))
          = map t_stoploss (calcbalances d) @ [50]"
      by (auto simp: message_handler_def sl_step_def sess st parse Let_def start_call_def
          split: prod.splits)
  qed
  show ?thesis
    using percent_not_in_clean_text [of t] handler_uses_clean_text [of _ t e us d chat_id]
      clean_fifty cur bal lots e1 e2 t1 t2 sl
    by blast
qed


theorem percent_stripped_witness:
  "float_of env_ok ''50'' = Some 50
   \<and> states (message_handler env_ok [7 \<mapsto> sess_sl\<lparr>s_step := Some Step_lots\<rparr>] db_day 7 ''50%'') 7
       = Some \<lparr>s_step = Some Step_type, s_data = Some (data_two_legs\<lparr>d_lots := Some 50\<rparr>),
               s_day = None, weekly_map = None\<rparr>
   \<and> clean_text '' EUR%USD '' = ''EURUSD''
   \<and> states (message_handler env_ok [7 \<mapsto> sess_sl\<lparr>s_step := Some Step_currency\<rparr>] db_day 7
         '' EUR%USD '') 7
       = Some \<lparr>s_step = Some Step_lots,
               s_data = Some (data_two_legs\<lparr>d_currency := Some ''EURUSD''\<rparr>),
               s_day = None, weekly_map = None\<rparr>"
proof -
  have fifty: "float_of env_ok ''50'' = Some 50"
    unfolding env_ok_fields by code_simp
  have cur: "clean_text '' EUR%USD '' = ''EURUSD''"
    by code_simp
  have lots: "states (message_handler env_ok [7 \<mapsto> sess_sl\<lparr>s_step := Some Step_lots\<rparr>] db_day 7 ''50%'') 7
       = Some \<lparr>s_step = Some Step_type, s_data = Some (data_two_legs\<lparr>d_lots := Some 50\<rparr>),
               s_day = None, weekly_map = None\<rparr>"
    using percent_stripped [of "[7 \<mapsto> sess_sl\<lparr>s_step := Some Step_lots\<rparr>]" 7
        "sess_sl\<lparr>s_step := Some Step_lots\<rparr>" data_two_legs env_ok "''50%''" db_day,
        OF _ _ fifty env_ok_fields(1), THEN conjunct2, THEN conjunct2, THEN conjunct2,
        THEN conjunct2, THEN conjunct2, THEN conjunct1]
    by (simp add: sess_sl_def)
  have currency: "states (message_handler env_ok [7 \<mapsto> sess_sl\<lparr>s_step := Some Step_currency\<rparr>]
         db_day 7 '' EUR%USD '') 7
       = Some \<lparr>s_step = Some Step_lots,
               s_data = Some (data_two_legs\<lparr>d_currency := Some ''EURUSD''\<rparr>),
               s_day = None, weekly_map = None\<rparr>"
    using percent_stripped [of "[7 \<mapsto> sess_sl\<lparr>s_step := Some Step_currency\<rparr>]" 7
        "sess_sl\<lparr>s_step := Some Step_currency\<rparr>" data_two_legs env_ok "'' EUR%USD ''" db_day,
        OF _ _ fifty env_ok_fields(1), THEN conjunct2, THEN conjunct2, THEN conjunct2,
        THEN conjunct1]
    by (simp add: sess_sl_def cur env_ok_fields db_day_today)
  show ?thesis
    using fifty lots cur currency by simp
qed

end
